theory Spec2Isabelle
  imports Main
begin

section \<open>Data model of \<open>pkg/agent/bakerapi.go\<close>\<close>

text \<open>
  \<open>bakerapi.go\<close> uses the packages \<open>datamodel\<close>, \<open>toggles\<close> and \<open>vhd/cache\<close>, whose
  declarations are not among the sources. Their types are modelled with the fields that
  \<open>bakerapi.go\<close> reads or writes; their functions, constants and tables are parameters.

  \<open>Distro\<close> is a string type in Go (the code converts with \<open>string(distro)\<close>), so the
  conversion is the identity here.
\<close>

type_synonym Distro = string

text \<open>A SIG image reference. Only \<open>Version\<close> is accessed by \<open>bakerapi.go\<close>.\<close>

record SigImageConfig =
  ResourceGroup :: string
  Gallery :: string
  Definition :: string
  Version :: string

text \<open>A legacy image reference; \<open>bakerapi.go\<close> only copies it.\<close>

record AzureOSImageConfig =
  ImageOffer :: string
  ImageSku :: string
  ImagePublisher :: string
  ImageVersion :: string

text \<open>
  The per-region SIG catalog: five Go maps from \<open>Distro\<close> to \<open>SigImageConfig\<close> (struct
  values, not pointers: \<open>GetDistroSigImageConfig\<close> copies them into a
  \<open>map[Distro]SigImageConfig\<close>). A lookup in a Go map that is \<open>nil\<close> or lacks the key gives
  \<open>ok = false\<close>: \<open>None\<close> here.
\<close>

record SIGAzureEnvironmentSpecConfig =
  SigUbuntuImageConfig :: "Distro \<rightharpoonup> SigImageConfig"
  SigCBLMarinerImageConfig :: "Distro \<rightharpoonup> SigImageConfig"
  SigAzureLinuxImageConfig :: "Distro \<rightharpoonup> SigImageConfig"
  SigWindowsImageConfig :: "Distro \<rightharpoonup> SigImageConfig"
  SigUbuntuEdgeZoneImageConfig :: "Distro \<rightharpoonup> SigImageConfig"

text \<open>The SIG selector is opaque to \<open>bakerapi.go\<close>: it is only handed to the catalog provider.\<close>

datatype SIGConfig = MkSIGConfig string

record AgentPoolProfile =
  Distro :: Distro
  OSType :: string

record AzureEnvironmentSpecConfig =
  CloudName :: string

record ContainerService =
  Location :: string

record EnvironmentInfo =
  Region :: string

text \<open>
  The input of \<open>GetNodeBootstrapping\<close>. \<open>OtherFields\<close> stands for everything that only the
  validators and the template generator consume.
\<close>

record NodeBootstrappingConfiguration =
  AgentPoolProfile :: AgentPoolProfile
  CloudSpecConfig :: AzureEnvironmentSpecConfig
  SIGConfig :: SIGConfig
  ContainerService :: ContainerService
  OtherFields :: string

text \<open>
  A \<open>*SigImageConfig\<close> is an address of a cell in the store; \<open>nil\<close> is \<open>None\<close>. The
  \<open>*AzureOSImageConfig\<close> of the artifact points to a private copy that is never written
  through, so it is modelled by the value it points to.
\<close>

type_synonym ptr = nat

record NodeBootstrapping =
  CustomData :: string
  CSE :: string
  OSImageConfig :: "AzureOSImageConfig option"
  SigImageConfig :: "ptr option"

text \<open>
  The three inventories of package \<open>cache\<close> are package-level variables holding a reference
  (a pointer or a map) or \<open>nil\<close>. A reference is the address of the inventory object.
\<close>

type_synonym ref = nat

record CachedOnVHD =
  FromManifest :: "ref option"
  FromComponentContainerImages :: "ref option"
  FromComponentDownloadedFiles :: "ref option"

datatype inventory = Manifest | ComponentContainerImages | ComponentDownloadedFiles

text \<open>
  The errors that \<open>bakerapi.go\<close> builds with \<open>fmt.Errorf\<close>, one constructor per message,
  carrying the values formatted into it:
  \<^item> \<open>UnknownCloud c\<close>: "don't have settings for cloud c";
  \<^item> \<open>SIGResolutionFailure e\<close>: the error \<open>e\<close> of \<open>GetSIGAzureCloudSpecConfig\<close>, returned as it is;
  \<open>SIGResolutionFailureWrapped e\<close>: "failed to get sig image config: e";
  \<^item> \<open>ImageNotFound d\<close>: "can't find image for distro d";
  \<open>SIGImageNotFound d r\<close>: "can't find SIG image config for distro d in region r";
  \<^item> \<open>CacheNotInitialized i\<close>: "cached versions from i are not available".
\<close>

datatype error =
    UnknownCloud string
  | SIGResolutionFailure string
  | SIGResolutionFailureWrapped string
  | ImageNotFound Distro
  | SIGImageNotFound Distro string
  | CacheNotInitialized inventory

text \<open>
  What a call does: it returns Go's pair of a result (\<open>None\<close> is \<open>nil\<close>) and an error
  (\<open>None\<close> is \<open>nil\<close>), or it panics on a nil pointer dereference.
\<close>

datatype 'a outcome = Returns "'a option" "error option" | NilPointerPanic

text \<open>
  The override entity. \<open>toggles.Entity\<close> is not among the sources; the two constructors
  keep everything they were built from, so that the override store may depend on all of it.
\<close>

datatype Entity =
    NewEntityFromNodeBootstrappingConfiguration NodeBootstrappingConfiguration
  | NewEntityFromEnvironmentInfo EnvironmentInfo

text \<open>\<open>agentBakerImpl\<close>: its toggles, of which the code calls \<open>GetLinuxNodeImageVersion\<close>.\<close>

record agentBakerImpl =
  GetLinuxNodeImageVersion :: "Entity \<Rightarrow> (string \<rightharpoonup> string)"

text \<open>
  The declarations of \<open>datamodel\<close> and of the rest of package \<open>agent\<close> that \<open>bakerapi.go\<close>
  uses and that are not among the sources: the three customized-image constants, the two
  Windows tests, the two validators (they update the configuration in place: here they
  return the updated one) and the two methods of the template generator.
\<close>

record externals =
  CustomizedWindowsOSImage :: Distro
  CustomizedImage :: Distro
  CustomizedImageKata :: Distro
  IsWindows :: "AgentPoolProfile \<Rightarrow> bool"
  IsWindowsDistro :: "Distro \<Rightarrow> bool"
  validateAndSetWindowsNodeBootstrappingConfiguration ::
    "NodeBootstrappingConfiguration \<Rightarrow> NodeBootstrappingConfiguration"
  validateAndSetLinuxNodeBootstrappingConfiguration ::
    "NodeBootstrappingConfiguration \<Rightarrow> NodeBootstrappingConfiguration"
  getNodeBootstrappingPayload :: "NodeBootstrappingConfiguration \<Rightarrow> string"
  getNodeBootstrappingCmd :: "NodeBootstrappingConfiguration \<Rightarrow> string"

text \<open>
  The state that the operations can reach: the package-level legacy catalog
  \<open>datamodel.AzureCloudToOSImageMap\<close>, the catalogs that
  \<open>datamodel.GetSIGAzureCloudSpecConfig\<close> answers with (\<open>Inl\<close> its error), the cells that
  \<open>*SigImageConfig\<close> pointers refer to, and the three variables of package \<open>cache\<close>.
\<close>

record world =
  AzureCloudToOSImageMap :: "string \<rightharpoonup> (Distro \<rightharpoonup> AzureOSImageConfig)"
  SIGAzureCloudSpecConfigs :: "SIGConfig \<Rightarrow> string \<Rightarrow> string + SIGAzureEnvironmentSpecConfig"
  sigImageConfigCells :: "SigImageConfig list"
  cacheFromManifest :: "ref option"
  cacheFromComponentContainerImages :: "ref option"
  cacheFromComponentDownloadedFiles :: "ref option"

section \<open>Pointers to \<open>SigImageConfig\<close>\<close>

text \<open>\<open>&imageConfig\<close>: the local copy escapes to a fresh cell, whose address is returned.\<close>

definition addressOf :: "SigImageConfig \<Rightarrow> world \<Rightarrow> ptr \<times> world" where
  "addressOf imageConfig w =
     (length (sigImageConfigCells w),
      w\<lparr>sigImageConfigCells := sigImageConfigCells w @ [imageConfig]\<rparr>)"

text \<open>Reading a pointer; \<open>None\<close> for an address that was never allocated.\<close>

definition deref :: "world \<Rightarrow> ptr \<Rightarrow> SigImageConfig option" where
  "deref w p =
     (if p < length (sigImageConfigCells w) then Some (sigImageConfigCells w ! p) else None)"

text \<open>
  \<open>p.Version = v\<close> for a non-nil pointer \<open>p\<close>. Every non-nil pointer of the program was
  allocated by \<open>addressOf\<close>; on another address the update leaves the store as it is.
\<close>

definition setVersion :: "ptr \<Rightarrow> string \<Rightarrow> world \<Rightarrow> world" where
  "setVersion p v w =
     w\<lparr>sigImageConfigCells :=
         (sigImageConfigCells w)[p := (sigImageConfigCells w ! p)\<lparr>Version := v\<rparr>]\<rparr>"

section \<open>The operations\<close>

definition GetSIGAzureCloudSpecConfig ::
  "world \<Rightarrow> SIGConfig \<Rightarrow> string \<Rightarrow> string + SIGAzureEnvironmentSpecConfig" where
  "GetSIGAzureCloudSpecConfig w sigConfig region = SIGAzureCloudSpecConfigs w sigConfig region"

text \<open>\<open>findSIGImageConfig\<close>: five lookups, each returning the address of a copy on a hit.\<close>

definition findSIGImageConfig ::
  "SIGAzureEnvironmentSpecConfig \<Rightarrow> Distro \<Rightarrow> world \<Rightarrow> ptr option \<times> world" where
  "findSIGImageConfig sigConfig distro w =
     (case SigUbuntuImageConfig sigConfig distro of
        Some imageConfig \<Rightarrow> (case addressOf imageConfig w of (p, w') \<Rightarrow> (Some p, w'))
      | None \<Rightarrow>
     (case SigCBLMarinerImageConfig sigConfig distro of
        Some imageConfig \<Rightarrow> (case addressOf imageConfig w of (p, w') \<Rightarrow> (Some p, w'))
      | None \<Rightarrow>
     (case SigAzureLinuxImageConfig sigConfig distro of
        Some imageConfig \<Rightarrow> (case addressOf imageConfig w of (p, w') \<Rightarrow> (Some p, w'))
      | None \<Rightarrow>
     (case SigWindowsImageConfig sigConfig distro of
        Some imageConfig \<Rightarrow> (case addressOf imageConfig w of (p, w') \<Rightarrow> (Some p, w'))
      | None \<Rightarrow>
     (case SigUbuntuEdgeZoneImageConfig sigConfig distro of
        Some imageConfig \<Rightarrow> (case addressOf imageConfig w of (p, w') \<Rightarrow> (Some p, w'))
      | None \<Rightarrow> (None, w))))))"

text \<open>
  The override of one entry: \<open>if v, ok := overrides[string(distro)]; ok { c.Version = v }\<close>
  on a struct value \<open>c\<close> (the loop variable of \<open>GetDistroSigImageConfig\<close>).
\<close>

definition overrideVersion :: "(string \<rightharpoonup> string) \<Rightarrow> Distro \<Rightarrow> SigImageConfig \<Rightarrow> SigImageConfig" where
  "overrideVersion overrides distro sigConfig =
     (case overrides distro of
        Some version \<Rightarrow> sigConfig\<lparr>Version := version\<rparr>
      | None \<Rightarrow> sigConfig)"

text \<open>
  \<open>for distro, sigConfig := range m { body; allDistros[distro] = sigConfig }\<close>. Go visits
  the entries of \<open>m\<close> in an unspecified order, each key once, and an iteration writes only
  its own key, so the map after the loop is the same for every order: at a key of \<open>m\<close> the
  entry of \<open>m\<close> after \<open>body\<close>, elsewhere what \<open>allDistros\<close> held. \<open>rangeInto\<close> is this map;
  \<open>rangeLoop\<close> is the loop itself over the entries in the order visited.
\<close>

definition rangeInto ::
  "(Distro \<Rightarrow> SigImageConfig \<Rightarrow> SigImageConfig) \<Rightarrow> (Distro \<rightharpoonup> SigImageConfig) \<Rightarrow>
   (Distro \<rightharpoonup> SigImageConfig) \<Rightarrow> (Distro \<rightharpoonup> SigImageConfig)" where
  "rangeInto body m allDistros =
     (\<lambda>distro. case m distro of
                 Some sigConfig \<Rightarrow> Some (body distro sigConfig)
               | None \<Rightarrow> allDistros distro)"

fun rangeLoop ::
  "(Distro \<Rightarrow> SigImageConfig \<Rightarrow> SigImageConfig) \<Rightarrow> (Distro \<times> SigImageConfig) list \<Rightarrow>
   (Distro \<rightharpoonup> SigImageConfig) \<Rightarrow> (Distro \<rightharpoonup> SigImageConfig)" where
  "rangeLoop body [] allDistros = allDistros"
| "rangeLoop body ((distro, sigConfig) # entries) allDistros =
     rangeLoop body entries (allDistros(distro \<mapsto> body distro sigConfig))"

text \<open>
  \<open>GetNodeBootstrapping\<close>. \<open>config\<close> is a pointer: \<open>None\<close> is \<open>nil\<close>, and reading a field of
  it panics. The validators update \<open>config\<close> in place, so every later read sees the
  validated configuration. The dereference \<open>nodeBootstrapping.SigImageConfig.Version\<close>
  panics when the pointer is nil.
\<close>

definition validated :: "externals \<Rightarrow> NodeBootstrappingConfiguration \<Rightarrow> NodeBootstrappingConfiguration" where
  "validated ext config =
     (if IsWindows ext (AgentPoolProfile config)
      then validateAndSetWindowsNodeBootstrappingConfiguration ext config
      else validateAndSetLinuxNodeBootstrappingConfiguration ext config)"

definition GetNodeBootstrapping ::
  "agentBakerImpl \<Rightarrow> externals \<Rightarrow> NodeBootstrappingConfiguration option \<Rightarrow> world \<Rightarrow>
   NodeBootstrapping outcome \<times> world" where
  "GetNodeBootstrapping agentBaker ext configPtr w =
     (case configPtr of
        None \<Rightarrow> (NilPointerPanic, w)
      | Some config0 \<Rightarrow>
     (let config = validated ext config0;
          nodeBootstrapping =
            \<lparr>CustomData = getNodeBootstrappingPayload ext config,
             CSE = getNodeBootstrappingCmd ext config,
             OSImageConfig = None,
             SigImageConfig = None\<rparr>;
          distro = Distro (AgentPoolProfile config)
      in
      if distro = CustomizedWindowsOSImage ext \<or> distro = CustomizedImage ext
         \<or> distro = CustomizedImageKata ext
      then (Returns (Some nodeBootstrapping) None, w)
      else
     (case AzureCloudToOSImageMap w (CloudName (CloudSpecConfig config)) of
        None \<Rightarrow> (Returns None (Some (UnknownCloud (CloudName (CloudSpecConfig config)))), w)
      | Some osImageConfigMap \<Rightarrow>
     (let nodeBootstrapping =
            (case osImageConfigMap distro of
               Some osImageConfig \<Rightarrow> nodeBootstrapping\<lparr>OSImageConfig := Some osImageConfig\<rparr>
             | None \<Rightarrow> nodeBootstrapping)
      in
     (case GetSIGAzureCloudSpecConfig w (SIGConfig config) (Location (ContainerService config)) of
        Inl err \<Rightarrow> (Returns None (Some (SIGResolutionFailure err)), w)
      | Inr sigAzureEnvironmentSpecConfig \<Rightarrow>
     (case findSIGImageConfig sigAzureEnvironmentSpecConfig distro w of
        (found, w') \<Rightarrow>
     (let nodeBootstrapping = nodeBootstrapping\<lparr>SigImageConfig := found\<rparr>
      in
      if SigImageConfig nodeBootstrapping = None \<and> OSImageConfig nodeBootstrapping = None
      then (Returns None (Some (ImageNotFound distro)), w')
      else if \<not> IsWindows ext (AgentPoolProfile config)
      then
        (let e = NewEntityFromNodeBootstrappingConfiguration config;
             imageVersionOverrides = GetLinuxNodeImageVersion agentBaker e
         in
         case imageVersionOverrides distro of
           Some imageVersion \<Rightarrow>
             (case SigImageConfig nodeBootstrapping of
                None \<Rightarrow> (NilPointerPanic, w')
              | Some p \<Rightarrow> (Returns (Some nodeBootstrapping) None, setVersion p imageVersion w'))
         | None \<Rightarrow> (Returns (Some nodeBootstrapping) None, w'))
      else (Returns (Some nodeBootstrapping) None, w'))))))))"

text \<open>\<open>GetLatestSigImageConfig\<close>; \<open>envInfo\<close> is a pointer, read first at \<open>envInfo.Region\<close>.\<close>

definition GetLatestSigImageConfig ::
  "agentBakerImpl \<Rightarrow> externals \<Rightarrow> SIGConfig \<Rightarrow> Distro \<Rightarrow> EnvironmentInfo option \<Rightarrow> world \<Rightarrow>
   ptr outcome \<times> world" where
  "GetLatestSigImageConfig agentBaker ext sigConfig distro envInfoPtr w =
     (case envInfoPtr of
        None \<Rightarrow> (NilPointerPanic, w)
      | Some envInfo \<Rightarrow>
     (case GetSIGAzureCloudSpecConfig w sigConfig (Region envInfo) of
        Inl err \<Rightarrow> (Returns None (Some (SIGResolutionFailure err)), w)
      | Inr sigAzureEnvironmentSpecConfig \<Rightarrow>
     (case findSIGImageConfig sigAzureEnvironmentSpecConfig distro w of
        (None, w') \<Rightarrow> (Returns None (Some (SIGImageNotFound distro (Region envInfo))), w')
      | (Some sigImageConfig, w') \<Rightarrow>
          if \<not> IsWindowsDistro ext distro
          then
            (let e = NewEntityFromEnvironmentInfo envInfo;
                 imageVersionOverrides = GetLinuxNodeImageVersion agentBaker e
             in
             case imageVersionOverrides distro of
               Some imageVersion \<Rightarrow>
                 (Returns (Some sigImageConfig) None, setVersion sigImageConfig imageVersion w')
             | None \<Rightarrow> (Returns (Some sigImageConfig) None, w'))
          else (Returns (Some sigImageConfig) None, w'))))"

text \<open>
  \<open>GetDistroSigImageConfig\<close>. It writes nothing but its own new map \<open>allDistros\<close> and the
  loop variables, which are copies, so it only reads the state; the returned map is
  modelled by its contents. The five loops run in the order of the source: Windows,
  CBLMariner, AzureLinux, Ubuntu, UbuntuEdgeZone.
\<close>

definition GetDistroSigImageConfig ::
  "agentBakerImpl \<Rightarrow> SIGConfig \<Rightarrow> EnvironmentInfo option \<Rightarrow> world \<Rightarrow>
   (Distro \<rightharpoonup> SigImageConfig) outcome" where
  "GetDistroSigImageConfig agentBaker sigConfig envInfoPtr w =
     (case envInfoPtr of
        None \<Rightarrow> NilPointerPanic
      | Some envInfo \<Rightarrow>
     (case GetSIGAzureCloudSpecConfig w sigConfig (Region envInfo) of
        Inl err \<Rightarrow> Returns None (Some (SIGResolutionFailureWrapped err))
      | Inr allAzureSigConfig \<Rightarrow>
     (let e = NewEntityFromEnvironmentInfo envInfo;
          linuxImageVersionOverrides = GetLinuxNodeImageVersion agentBaker e;
          allDistros = Map.empty;
          allDistros = rangeInto (\<lambda>distro sigConfig. sigConfig)
                         (SigWindowsImageConfig allAzureSigConfig) allDistros;
          allDistros = rangeInto (overrideVersion linuxImageVersionOverrides)
                         (SigCBLMarinerImageConfig allAzureSigConfig) allDistros;
          allDistros = rangeInto (overrideVersion linuxImageVersionOverrides)
                         (SigAzureLinuxImageConfig allAzureSigConfig) allDistros;
          allDistros = rangeInto (overrideVersion linuxImageVersionOverrides)
                         (SigUbuntuImageConfig allAzureSigConfig) allDistros;
          allDistros = rangeInto (overrideVersion linuxImageVersionOverrides)
                         (SigUbuntuEdgeZoneImageConfig allAzureSigConfig) allDistros
      in Returns (Some allDistros) None)))"

text \<open>\<open>GetCachedVersionsOnVHD\<close>: three nil tests in the order of the source.\<close>

definition GetCachedVersionsOnVHD :: "world \<Rightarrow> CachedOnVHD outcome" where
  "GetCachedVersionsOnVHD w =
     (if cacheFromManifest w = None
      then Returns None (Some (CacheNotInitialized Manifest))
      else if cacheFromComponentContainerImages w = None
      then Returns None (Some (CacheNotInitialized ComponentContainerImages))
      else if cacheFromComponentDownloadedFiles w = None
      then Returns None (Some (CacheNotInitialized ComponentDownloadedFiles))
      else Returns
             (Some \<lparr>FromManifest = cacheFromManifest w,
                    FromComponentContainerImages = cacheFromComponentContainerImages w,
                    FromComponentDownloadedFiles = cacheFromComponentDownloadedFiles w\<rparr>)
             None)"

section \<open>What the specification says, and how results are read\<close>

text \<open>
  The family order of the specification's lookup: general Linux (Ubuntu), immutable Linux A
  (CBLMariner), immutable Linux B (AzureLinux), Windows, region-restricted Linux
  (UbuntuEdgeZone).
\<close>

definition familyScanOrder :: "SIGAzureEnvironmentSpecConfig \<Rightarrow> (Distro \<rightharpoonup> SigImageConfig) list" where
  "familyScanOrder c =
     [SigUbuntuImageConfig c, SigCBLMarinerImageConfig c, SigAzureLinuxImageConfig c,
      SigWindowsImageConfig c, SigUbuntuEdgeZoneImageConfig c]"

text \<open>The entry of the first map of a list that has the key.\<close>

fun firstMatch :: "('k \<rightharpoonup> 'v) list \<Rightarrow> 'k \<Rightarrow> 'v option" where
  "firstMatch [] k = None"
| "firstMatch (m # ms) k = (case m k of Some v \<Rightarrow> Some v | None \<Rightarrow> firstMatch ms k)"

text \<open>
  The full catalog as the specification words it: the five families merged in the order of
  \<open>familyScanOrder\<close>, a later family overwriting an earlier one, the override applied to
  every entry but those of the Windows family.
\<close>

definition specDistroSigImageConfig ::
  "(string \<rightharpoonup> string) \<Rightarrow> SIGAzureEnvironmentSpecConfig \<Rightarrow> (Distro \<rightharpoonup> SigImageConfig)" where
  "specDistroSigImageConfig overrides c =
     rangeInto (overrideVersion overrides) (SigUbuntuEdgeZoneImageConfig c)
    (rangeInto (\<lambda>distro sigConfig. sigConfig) (SigWindowsImageConfig c)
    (rangeInto (overrideVersion overrides) (SigAzureLinuxImageConfig c)
    (rangeInto (overrideVersion overrides) (SigCBLMarinerImageConfig c)
    (rangeInto (overrideVersion overrides) (SigUbuntuImageConfig c) Map.empty))))"

text \<open>
  The order in which \<open>GetDistroSigImageConfig\<close> merges, each family with the flag whether
  its loop applies the override.
\<close>

definition mergeOrder ::
  "SIGAzureEnvironmentSpecConfig \<Rightarrow> (bool \<times> (Distro \<rightharpoonup> SigImageConfig)) list" where
  "mergeOrder c =
     [(False, SigWindowsImageConfig c), (True, SigCBLMarinerImageConfig c),
      (True, SigAzureLinuxImageConfig c), (True, SigUbuntuImageConfig c),
      (True, SigUbuntuEdgeZoneImageConfig c)]"

text \<open>The four families whose loops apply the override.\<close>

definition linuxFamilies :: "SIGAzureEnvironmentSpecConfig \<Rightarrow> (Distro \<rightharpoonup> SigImageConfig) list" where
  "linuxFamilies c =
     [SigCBLMarinerImageConfig c, SigAzureLinuxImageConfig c, SigUbuntuImageConfig c,
      SigUbuntuEdgeZoneImageConfig c]"

text \<open>What a caller of \<open>findSIGImageConfig\<close> reads through the pointer it got.\<close>

definition foundSigImageConfig :: "ptr option \<times> world \<Rightarrow> SigImageConfig option" where
  "foundSigImageConfig r =
     (case r of
        (Some p, w') \<Rightarrow> deref w' p
      | (None, w') \<Rightarrow> None)"

text \<open>
  The \<open>SigImageConfig\<close> that a caller reads through the pointer it got: from
  \<open>GetLatestSigImageConfig\<close>, from the artifact of \<open>GetNodeBootstrapping\<close>, and the entry of
  a distro in the map of \<open>GetDistroSigImageConfig\<close>. \<open>None\<close> when nothing was returned.
\<close>

definition returnedSigImageConfig :: "ptr outcome \<times> world \<Rightarrow> SigImageConfig option" where
  "returnedSigImageConfig r =
     (case r of
        (Returns (Some p) None, w') \<Rightarrow> deref w' p
      | _ \<Rightarrow> None)"

definition artifactSigImageConfig :: "NodeBootstrapping outcome \<times> world \<Rightarrow> SigImageConfig option" where
  "artifactSigImageConfig r =
     (case r of
        (Returns (Some nodeBootstrapping) None, w') \<Rightarrow>
          (case SigImageConfig nodeBootstrapping of Some p \<Rightarrow> deref w' p | None \<Rightarrow> None)
      | _ \<Rightarrow> None)"

definition catalogEntry :: "(Distro \<rightharpoonup> SigImageConfig) outcome \<Rightarrow> Distro \<Rightarrow> SigImageConfig option" where
  "catalogEntry r distro =
     (case r of
        Returns (Some allDistros) None \<Rightarrow> allDistros distro
      | _ \<Rightarrow> None)"

text \<open>Whether a call returned the error \<open>ImageNotFound\<close>.\<close>

definition isImageNotFound :: "'a outcome \<Rightarrow> bool" where
  "isImageNotFound r =
     (case r of
        Returns _ (Some (ImageNotFound _)) \<Rightarrow> True
      | _ \<Rightarrow> False)"

text \<open>The variable of package \<open>cache\<close> that holds an inventory.\<close>

fun inventoryVar :: "world \<Rightarrow> inventory \<Rightarrow> ref option" where
  "inventoryVar w Manifest = cacheFromManifest w"
| "inventoryVar w ComponentContainerImages = cacheFromComponentContainerImages w"
| "inventoryVar w ComponentDownloadedFiles = cacheFromComponentDownloadedFiles w"

text \<open>The three customized-image distros.\<close>

definition customized :: "externals \<Rightarrow> Distro set" where
  "customized ext = {CustomizedWindowsOSImage ext, CustomizedImage ext, CustomizedImageKata ext}"

text \<open>
  The catalogs of two states are the same: the legacy catalog, the SIG catalogs, and every
  cell that a pointer of the first state refers to.
\<close>

definition catalogsUnchanged :: "world \<Rightarrow> world \<Rightarrow> bool" where
  "catalogsUnchanged w w' \<longleftrightarrow>
     AzureCloudToOSImageMap w' = AzureCloudToOSImageMap w
     \<and> SIGAzureCloudSpecConfigs w' = SIGAzureCloudSpecConfigs w
     \<and> take (length (sigImageConfigCells w)) (sigImageConfigCells w') = sigImageConfigCells w"

section \<open>A concrete catalog, override store and configuration\<close>

definition sigEntry :: "string \<Rightarrow> string \<Rightarrow> SigImageConfig" where
  "sigEntry definition version =
     \<lparr>ResourceGroup = ''rg'', Gallery = ''gallery'', Definition = definition, Version = version\<rparr>"

definition osEntry :: AzureOSImageConfig where
  "osEntry = \<lparr>ImageOffer = ''offer'', ImageSku = ''sku'', ImagePublisher = ''publisher'',
              ImageVersion = ''latest''\<rparr>"

text \<open>
  \<open>''u''\<close> is in the Ubuntu and UbuntuEdgeZone families, \<open>''m''\<close> in CBLMariner and Windows,
  \<open>''both''\<close> in Ubuntu and Windows, \<open>''win''\<close> in Windows only.
\<close>

definition exampleSpec :: SIGAzureEnvironmentSpecConfig where
  "exampleSpec =
     \<lparr>SigUbuntuImageConfig = [''u'' \<mapsto> sigEntry ''ubuntu'' ''1'', ''both'' \<mapsto> sigEntry ''ubuntu'' ''1''],
      SigCBLMarinerImageConfig = [''m'' \<mapsto> sigEntry ''mariner'' ''2''],
      SigAzureLinuxImageConfig = Map.empty,
      SigWindowsImageConfig =
        [''win'' \<mapsto> sigEntry ''windows'' ''4'', ''both'' \<mapsto> sigEntry ''windows'' ''4'',
         ''m'' \<mapsto> sigEntry ''windows'' ''4''],
      SigUbuntuEdgeZoneImageConfig = [''u'' \<mapsto> sigEntry ''edgezone'' ''5'']\<rparr>"

text \<open>
  The cloud \<open>''cloud''\<close> has legacy entries for \<open>''legacy''\<close> and \<open>''u''\<close>; the region \<open>''r''\<close>
  resolves to \<open>exampleSpec\<close>; no pointer was allocated yet; the three inventories are set.
\<close>

definition exampleWorld :: world where
  "exampleWorld =
     \<lparr>AzureCloudToOSImageMap = [''cloud'' \<mapsto> [''legacy'' \<mapsto> osEntry, ''u'' \<mapsto> osEntry]],
      SIGAzureCloudSpecConfigs =
        (\<lambda>sigConfig region. if region = ''r'' then Inr exampleSpec else Inl ''no such region''),
      sigImageConfigCells = [],
      cacheFromManifest = Some 1,
      cacheFromComponentContainerImages = Some 2,
      cacheFromComponentDownloadedFiles = Some 3\<rparr>"

text \<open>An override store that answers every entity with version \<open>''9''\<close> for three distros.\<close>

definition exampleBaker :: agentBakerImpl where
  "exampleBaker =
     \<lparr>GetLinuxNodeImageVersion =
        (\<lambda>e. [''u'' \<mapsto> ''9'', ''win'' \<mapsto> ''9'', ''legacy'' \<mapsto> ''9''])\<rparr>"

definition exampleExternals :: externals where
  "exampleExternals =
     \<lparr>CustomizedWindowsOSImage = ''CustomizedWindowsOSImage'',
      CustomizedImage = ''CustomizedImage'',
      CustomizedImageKata = ''CustomizedImageKata'',
      IsWindows = (\<lambda>profile. OSType profile = ''Windows''),
      IsWindowsDistro = (\<lambda>distro. distro = ''win''),
      validateAndSetWindowsNodeBootstrappingConfiguration = (\<lambda>config. config),
      validateAndSetLinuxNodeBootstrappingConfiguration = (\<lambda>config. config),
      getNodeBootstrappingPayload = (\<lambda>config. ''payload''),
      getNodeBootstrappingCmd = (\<lambda>config. ''cmd'')\<rparr>"

definition exampleConfig :: "Distro \<Rightarrow> string \<Rightarrow> string \<Rightarrow> NodeBootstrappingConfiguration" where
  "exampleConfig distro osType cloud =
     \<lparr>AgentPoolProfile = \<lparr>Distro = distro, OSType = osType\<rparr>,
      CloudSpecConfig = \<lparr>CloudName = cloud\<rparr>,
      SIGConfig = MkSIGConfig ''sig'',
      ContainerService = \<lparr>Location = ''r''\<rparr>,
      OtherFields = ''other''\<rparr>"

definition exampleEnvInfo :: EnvironmentInfo where
  "exampleEnvInfo = \<lparr>Region = ''r''\<rparr>"

section \<open>The family scan\<close>

lemma findSIGImageConfig_firstMatch:
  "findSIGImageConfig sigConfig distro w =
     (case firstMatch (familyScanOrder sigConfig) distro of
        None \<Rightarrow> (None, w)
      | Some c \<Rightarrow> (Some (length (sigImageConfigCells w)),
                   w\<lparr>sigImageConfigCells := sigImageConfigCells w @ [c]\<rparr>))"
  by (simp add: findSIGImageConfig_def familyScanOrder_def addressOf_def split: option.splits)

lemma firstMatch_at:
  "i < length ms \<Longrightarrow> (ms ! i) k = Some v \<Longrightarrow> (\<forall>j<i. (ms ! j) k = None) \<Longrightarrow> firstMatch ms k = Some v"
proof (induction ms arbitrary: i)
  case Nil
  then show ?case by simp
next
  case (Cons m ms)
  show ?case
  proof (cases i)
    case 0
    with Cons.prems show ?thesis by simp
  next
    case (Suc n)
    from Cons.prems Suc have head: "m k = None" by auto
    have earlier: "\<forall>j<n. (ms ! j) k = None"
    proof (intro allI impI)
      fix j assume "j < n"
      then have "Suc j < i" using Suc by simp
      with Cons.prems(3) have "((m # ms) ! Suc j) k = None" by blast
      then show "(ms ! j) k = None" by simp
    qed
    from Cons.prems Suc have "n < length ms" and "(ms ! n) k = Some v" by simp_all
    then have "firstMatch ms k = Some v" using earlier by (rule Cons.IH)
    with head show ?thesis by simp
  qed
qed

lemma firstMatch_none_iff:
  "firstMatch ms k = None \<longleftrightarrow> (\<forall>m\<in>set ms. m k = None)"
  by (induction ms) (auto split: option.splits)

text \<open>
  Claim C1. \<open>findSIGImageConfig\<close> inspects the five family sub-catalogs in the order
  Ubuntu, CBLMariner, AzureLinux, Windows, UbuntuEdgeZone (\<open>familyScanOrder\<close>): when the
  \<open>i\<close>-th family of this order has the distro and no earlier family has it, the result
  is a pointer to a fresh copy of that family's entry, whatever the later families hold;
  when no family has the distro, the result is nil and the state is as before.
\<close>

theorem findSIGImageConfig_family_order:
  "(i < length (familyScanOrder sigConfig)
      \<and> (familyScanOrder sigConfig ! i) distro = Some c
      \<and> (\<forall>j<i. (familyScanOrder sigConfig ! j) distro = None)
    \<longrightarrow> findSIGImageConfig sigConfig distro w =
          (Some (length (sigImageConfigCells w)),
           w\<lparr>sigImageConfigCells := sigImageConfigCells w @ [c]\<rparr>))
   \<and> ((\<forall>m\<in>set (familyScanOrder sigConfig). m distro = None)
    \<longrightarrow> findSIGImageConfig sigConfig distro w = (None, w))"
proof (intro conjI impI)
  assume "i < length (familyScanOrder sigConfig)
      \<and> (familyScanOrder sigConfig ! i) distro = Some c
      \<and> (\<forall>j<i. (familyScanOrder sigConfig ! j) distro = None)"
  then have "firstMatch (familyScanOrder sigConfig) distro = Some c"
    using firstMatch_at [of i "familyScanOrder sigConfig" distro c] by blast
  then show "findSIGImageConfig sigConfig distro w =
             (Some (length (sigImageConfigCells w)),
              w\<lparr>sigImageConfigCells := sigImageConfigCells w @ [c]\<rparr>)"
    by (simp add: findSIGImageConfig_firstMatch)
next
  assume "\<forall>m\<in>set (familyScanOrder sigConfig). m distro = None"
  then have "firstMatch (familyScanOrder sigConfig) distro = None"
    by (simp add: firstMatch_none_iff)
  then show "findSIGImageConfig sigConfig distro w = (None, w)"
    by (simp add: findSIGImageConfig_firstMatch)
qed

text \<open>
  In \<open>exampleSpec\<close> the distro \<open>''m''\<close> is in the CBLMariner family (second in the order)
  and in the Windows family (fourth), and not in the Ubuntu family: the CBLMariner entry
  is returned.
\<close>

theorem findSIGImageConfig_family_order_witness:
  "(familyScanOrder exampleSpec ! 1) ''m'' = Some (sigEntry ''mariner'' ''2'')
   \<and> (familyScanOrder exampleSpec ! 3) ''m'' = Some (sigEntry ''windows'' ''4'')
   \<and> (familyScanOrder exampleSpec ! 0) ''m'' = None
   \<and> findSIGImageConfig exampleSpec ''m'' exampleWorld =
       (Some 0, exampleWorld\<lparr>sigImageConfigCells := [sigEntry ''mariner'' ''2'']\<rparr>)"
proof -
  have order: "familyScanOrder exampleSpec ! 1 = SigCBLMarinerImageConfig exampleSpec"
    "familyScanOrder exampleSpec ! 3 = SigWindowsImageConfig exampleSpec"
    "familyScanOrder exampleSpec ! 0 = SigUbuntuImageConfig exampleSpec"
    "length (familyScanOrder exampleSpec) = 5"
    by (simp_all add: familyScanOrder_def)
  have hit: "(familyScanOrder exampleSpec ! 1) ''m'' = Some (sigEntry ''mariner'' ''2'')"
    and later: "(familyScanOrder exampleSpec ! 3) ''m'' = Some (sigEntry ''windows'' ''4'')"
    and miss: "(familyScanOrder exampleSpec ! 0) ''m'' = None"
    unfolding order by (simp_all add: exampleSpec_def)
  from miss have earlier: "\<forall>j<1. (familyScanOrder exampleSpec ! j) ''m'' = None"
    by simp
  have cells: "sigImageConfigCells exampleWorld = []"
    by (simp add: exampleWorld_def)
  from findSIGImageConfig_family_order
         [of 1 exampleSpec "''m''" "sigEntry ''mariner'' ''2''" exampleWorld]
       hit earlier order(4) cells
  have "findSIGImageConfig exampleSpec ''m'' exampleWorld =
       (Some 0, exampleWorld\<lparr>sigImageConfigCells := [sigEntry ''mariner'' ''2'']\<rparr>)"
    by simp
  with hit later miss show ?thesis by simp
qed

section \<open>\<open>GetNodeBootstrapping\<close>: bypass, errors, and the cache snapshot\<close>

lemma setVersion_fresh:
  "setVersion (length (sigImageConfigCells w)) v
     (w\<lparr>sigImageConfigCells := sigImageConfigCells w @ [c]\<rparr>) =
   w\<lparr>sigImageConfigCells := sigImageConfigCells w @ [c\<lparr>Version := v\<rparr>]\<rparr>"
  by (simp add: setVersion_def)

lemma deref_fresh:
  "deref (w\<lparr>sigImageConfigCells := sigImageConfigCells w @ [c]\<rparr>) (length (sigImageConfigCells w)) = Some c"
  by (simp add: deref_def)

lemma GetNodeBootstrapping_customized:
  assumes "Distro (AgentPoolProfile (validated ext config)) \<in> customized ext"
  shows "GetNodeBootstrapping agentBaker ext (Some config) w =
     (Returns (Some \<lparr>CustomData = getNodeBootstrappingPayload ext (validated ext config),
                      CSE = getNodeBootstrappingCmd ext (validated ext config),
                      OSImageConfig = None, SigImageConfig = None\<rparr>) None, w)"
  using assms by (auto simp: GetNodeBootstrapping_def customized_def Let_def)

lemma GetNodeBootstrapping_resolved:
  assumes "Distro (AgentPoolProfile (validated ext config)) \<notin> customized ext"
    and "AzureCloudToOSImageMap w (CloudName (CloudSpecConfig (validated ext config))) = Some osImageConfigMap"
    and "GetSIGAzureCloudSpecConfig w (SIGConfig (validated ext config))
           (Location (ContainerService (validated ext config))) = Inr spec"
  shows "GetNodeBootstrapping agentBaker ext (Some config) w =
     (let c = validated ext config;
          distro = Distro (AgentPoolProfile c);
          overrides = GetLinuxNodeImageVersion agentBaker (NewEntityFromNodeBootstrappingConfiguration c);
          artifact = \<lparr>CustomData = getNodeBootstrappingPayload ext c,
                      CSE = getNodeBootstrappingCmd ext c,
                      OSImageConfig = osImageConfigMap distro, SigImageConfig = None\<rparr>
      in case firstMatch (familyScanOrder spec) distro of
           None \<Rightarrow>
             if osImageConfigMap distro = None
             then (Returns None (Some (ImageNotFound distro)), w)
             else if \<not> IsWindows ext (AgentPoolProfile c) \<and> overrides distro \<noteq> None
             then (NilPointerPanic, w)
             else (Returns (Some artifact) None, w)
         | Some entry \<Rightarrow>
             (Returns (Some (artifact\<lparr>SigImageConfig := Some (length (sigImageConfigCells w))\<rparr>)) None,
              w\<lparr>sigImageConfigCells := sigImageConfigCells w @
                  [if IsWindows ext (AgentPoolProfile c) then entry
                   else overrideVersion overrides distro entry]\<rparr>))"
  using assms
  by (auto simp: GetNodeBootstrapping_def customized_def Let_def findSIGImageConfig_firstMatch
        setVersion_fresh overrideVersion_def split: option.splits)


lemma validated_example:
  "validated exampleExternals (exampleConfig distro osType cloud) = exampleConfig distro osType cloud"
  by (simp add: validated_def exampleExternals_def)

lemma example_legacy:
  "AzureCloudToOSImageMap exampleWorld (CloudName (CloudSpecConfig (exampleConfig distro osType ''cloud'')))
     = Some [''legacy'' \<mapsto> osEntry, ''u'' \<mapsto> osEntry]"
  by (simp add: exampleWorld_def exampleConfig_def)

lemma example_sig:
  "GetSIGAzureCloudSpecConfig exampleWorld (SIGConfig (exampleConfig distro osType cloud))
     (Location (ContainerService (exampleConfig distro osType cloud))) = Inr exampleSpec"
  by (simp add: GetSIGAzureCloudSpecConfig_def exampleWorld_def exampleConfig_def)

lemma example_distro:
  "Distro (AgentPoolProfile (exampleConfig distro osType cloud)) = distro"
  by (simp add: exampleConfig_def)

lemma example_customized:
  "customized exampleExternals = {''CustomizedWindowsOSImage'', ''CustomizedImage'', ''CustomizedImageKata''}"
  by (simp add: customized_def exampleExternals_def)

text \<open>
  Claim C5. For a configuration that is not customized, whose cloud is a key of the legacy
  catalog and whose SIG environment resolves, \<open>GetNodeBootstrapping\<close> returns the error
  \<open>ImageNotFound\<close> (for the distro, and with no artifact) exactly when the distro is
  absent from the cloud's legacy catalog and from all five SIG families; when one of the
  two lookups yields an entry, no \<open>ImageNotFound\<close> error of any kind is returned. The
  distro, cloud, selector and location are those of the configuration as the validators
  left it, which is what the code reads.
\<close>

theorem image_not_found_iff:
  assumes "Distro (AgentPoolProfile (validated ext config)) \<notin> customized ext"
    and "AzureCloudToOSImageMap w (CloudName (CloudSpecConfig (validated ext config))) = Some osImageConfigMap"
    and "GetSIGAzureCloudSpecConfig w (SIGConfig (validated ext config))
           (Location (ContainerService (validated ext config))) = Inr spec"
  shows "(fst (GetNodeBootstrapping agentBaker ext (Some config) w) =
            Returns None (Some (ImageNotFound (Distro (AgentPoolProfile (validated ext config)))))
          \<longleftrightarrow> osImageConfigMap (Distro (AgentPoolProfile (validated ext config))) = None
              \<and> (\<forall>m\<in>set (familyScanOrder spec).
                    m (Distro (AgentPoolProfile (validated ext config))) = None))
       \<and> (isImageNotFound (fst (GetNodeBootstrapping agentBaker ext (Some config) w))
          \<longleftrightarrow> osImageConfigMap (Distro (AgentPoolProfile (validated ext config))) = None
              \<and> (\<forall>m\<in>set (familyScanOrder spec).
                    m (Distro (AgentPoolProfile (validated ext config))) = None))"
proof (cases "firstMatch (familyScanOrder spec) (Distro (AgentPoolProfile (validated ext config)))")
  case None
  then have "\<forall>m\<in>set (familyScanOrder spec). m (Distro (AgentPoolProfile (validated ext config))) = None"
    by (simp add: firstMatch_none_iff)
  with None show ?thesis
    by (simp add: GetNodeBootstrapping_resolved [OF assms] Let_def isImageNotFound_def)
next
  case (Some entry)
  then have "\<not> (\<forall>m\<in>set (familyScanOrder spec). m (Distro (AgentPoolProfile (validated ext config))) = None)"
    using firstMatch_none_iff [of "familyScanOrder spec" "Distro (AgentPoolProfile (validated ext config))"]
    by simp
  with Some show ?thesis
    by (simp add: GetNodeBootstrapping_resolved [OF assms] Let_def isImageNotFound_def)
qed

text \<open>
  The distro \<open>''nowhere''\<close> is in no catalog; \<open>''legacy''\<close> is in the legacy catalog only.
\<close>

theorem image_not_found_iff_witness:
  "fst (GetNodeBootstrapping exampleBaker exampleExternals
          (Some (exampleConfig ''nowhere'' ''Linux'' ''cloud'')) exampleWorld) =
     Returns None (Some (ImageNotFound ''nowhere''))
   \<and> \<not> isImageNotFound (fst (GetNodeBootstrapping exampleBaker exampleExternals
          (Some (exampleConfig ''legacy'' ''Windows'' ''cloud'')) exampleWorld))"
proof -
  have nc: "Distro (AgentPoolProfile (validated exampleExternals (exampleConfig ''nowhere'' ''Linux'' ''cloud'')))
              \<notin> customized exampleExternals"
    "Distro (AgentPoolProfile (validated exampleExternals (exampleConfig ''legacy'' ''Windows'' ''cloud'')))
              \<notin> customized exampleExternals"
    by (simp_all add: validated_example example_distro example_customized)
  have absent: "[''legacy'' \<mapsto> osEntry, ''u'' \<mapsto> osEntry] ''nowhere'' = None
                \<and> (\<forall>m\<in>set (familyScanOrder exampleSpec). m ''nowhere'' = None)"
    by (simp add: familyScanOrder_def exampleSpec_def)
  have present: "[''legacy'' \<mapsto> osEntry, ''u'' \<mapsto> osEntry] ''legacy'' \<noteq> None"
    by simp
  from image_not_found_iff [of exampleExternals "exampleConfig ''nowhere'' ''Linux'' ''cloud''"
         exampleWorld "[''legacy'' \<mapsto> osEntry, ''u'' \<mapsto> osEntry]" exampleSpec exampleBaker]
       nc(1) absent
  have first: "fst (GetNodeBootstrapping exampleBaker exampleExternals
          (Some (exampleConfig ''nowhere'' ''Linux'' ''cloud'')) exampleWorld) =
     Returns None (Some (ImageNotFound ''nowhere''))"
    by (simp add: validated_example example_legacy example_sig example_distro)
  from image_not_found_iff [of exampleExternals "exampleConfig ''legacy'' ''Windows'' ''cloud''"
         exampleWorld "[''legacy'' \<mapsto> osEntry, ''u'' \<mapsto> osEntry]" exampleSpec exampleBaker]
       nc(2) present
  have second: "\<not> isImageNotFound (fst (GetNodeBootstrapping exampleBaker exampleExternals
          (Some (exampleConfig ''legacy'' ''Windows'' ''cloud'')) exampleWorld))"
    by (simp add: validated_example example_legacy example_sig example_distro)
  from first second show ?thesis by simp
qed

text \<open>
  Claim C6. For a configuration whose distro is one of the three customized-image
  constants, \<open>GetNodeBootstrapping\<close> returns an artifact with only the payload and the
  command, both image references nil, no error, and the state as it was; the returned
  pair is the same for every override store and every state (legacy catalog, SIG catalogs),
  so no catalog, SIG environment or override is consulted and none of their errors can
  occur.
\<close>

theorem customized_bypass:
  assumes "Distro (AgentPoolProfile (validated ext config)) \<in> customized ext"
  shows "GetNodeBootstrapping agentBaker ext (Some config) w =
           (Returns (Some \<lparr>CustomData = getNodeBootstrappingPayload ext (validated ext config),
                            CSE = getNodeBootstrappingCmd ext (validated ext config),
                            OSImageConfig = None, SigImageConfig = None\<rparr>) None, w)
         \<and> fst (GetNodeBootstrapping agentBaker' ext (Some config) w') =
             fst (GetNodeBootstrapping agentBaker ext (Some config) w)"
  by (simp add: GetNodeBootstrapping_customized [OF assms])

text \<open>
  A customized distro with a cloud that the legacy catalog does not know: no error.
\<close>

theorem customized_bypass_witness:
  "GetNodeBootstrapping exampleBaker exampleExternals
     (Some (exampleConfig ''CustomizedImageKata'' ''Linux'' ''no such cloud'')) exampleWorld =
   (Returns (Some \<lparr>CustomData = ''payload'', CSE = ''cmd'',
                    OSImageConfig = None, SigImageConfig = None\<rparr>) None, exampleWorld)"
proof -
  have "Distro (AgentPoolProfile (validated exampleExternals
          (exampleConfig ''CustomizedImageKata'' ''Linux'' ''no such cloud''))) \<in> customized exampleExternals"
    by (simp add: validated_example example_distro example_customized)
  from customized_bypass [OF this, of exampleBaker exampleWorld exampleBaker exampleWorld]
  show ?thesis
    by (simp add: validated_example exampleExternals_def)
qed

text \<open>
  Claim C7. For a configuration that is not customized and whose cloud name is not a key
  of the legacy catalog, \<open>GetNodeBootstrapping\<close> returns a nil artifact and the error
  \<open>UnknownCloud\<close> with that cloud name, whatever the other fields, the SIG catalogs and
  the override store are.
\<close>

theorem unknown_cloud:
  assumes "Distro (AgentPoolProfile (validated ext config)) \<notin> customized ext"
    and "AzureCloudToOSImageMap w (CloudName (CloudSpecConfig (validated ext config))) = None"
  shows "GetNodeBootstrapping agentBaker ext (Some config) w =
     (Returns None (Some (UnknownCloud (CloudName (CloudSpecConfig (validated ext config))))), w)"
  using assms by (auto simp: GetNodeBootstrapping_def customized_def Let_def)

text \<open>
  The cloud \<open>''moon''\<close> is not in the legacy catalog of \<open>exampleWorld\<close>.
\<close>

theorem unknown_cloud_witness:
  "GetNodeBootstrapping exampleBaker exampleExternals
     (Some (exampleConfig ''u'' ''Linux'' ''moon'')) exampleWorld =
   (Returns None (Some (UnknownCloud ''moon'')), exampleWorld)"
proof -
  have nc: "Distro (AgentPoolProfile (validated exampleExternals (exampleConfig ''u'' ''Linux'' ''moon'')))
              \<notin> customized exampleExternals"
    by (simp add: validated_example example_distro example_customized)
  have cloud: "AzureCloudToOSImageMap exampleWorld
      (CloudName (CloudSpecConfig (validated exampleExternals (exampleConfig ''u'' ''Linux'' ''moon'')))) = None"
    unfolding validated_example by (simp add: exampleWorld_def exampleConfig_def)
  from unknown_cloud [OF nc cloud, of exampleBaker] show ?thesis
    unfolding validated_example by (simp add: exampleConfig_def)
qed

text \<open>
  Claim C8. \<open>GetCachedVersionsOnVHD\<close> returns a \<open>CacheNotInitialized\<close> error exactly when
  one of the three inventory variables is nil; the inventory that the error names is one
  that is nil; and when all three are set, the result is a snapshot whose three fields are
  the very references that the three variables hold.
\<close>

theorem cache_snapshot:
  "((\<exists>i. GetCachedVersionsOnVHD w = Returns None (Some (CacheNotInitialized i)))
      \<longleftrightarrow> (\<exists>i. inventoryVar w i = None))
   \<and> (\<forall>i. GetCachedVersionsOnVHD w = Returns None (Some (CacheNotInitialized i))
          \<longrightarrow> inventoryVar w i = None)
   \<and> ((\<forall>i. inventoryVar w i \<noteq> None)
        \<longrightarrow> GetCachedVersionsOnVHD w =
             Returns (Some \<lparr>FromManifest = inventoryVar w Manifest,
                            FromComponentContainerImages = inventoryVar w ComponentContainerImages,
                            FromComponentDownloadedFiles = inventoryVar w ComponentDownloadedFiles\<rparr>)
                     None)"
proof (intro conjI allI impI iffI)
  assume "\<exists>i. GetCachedVersionsOnVHD w = Returns None (Some (CacheNotInitialized i))"
  then obtain i where "GetCachedVersionsOnVHD w = Returns None (Some (CacheNotInitialized i))" ..
  then have "inventoryVar w i = None"
    by (cases i) (auto simp: GetCachedVersionsOnVHD_def split: if_splits)
  then show "\<exists>i. inventoryVar w i = None" ..
next
  assume "\<exists>i. inventoryVar w i = None"
  then obtain i where unset: "inventoryVar w i = None" ..
  show "\<exists>i. GetCachedVersionsOnVHD w = Returns None (Some (CacheNotInitialized i))"
  proof (cases "cacheFromManifest w = None")
    case True
    then have "GetCachedVersionsOnVHD w = Returns None (Some (CacheNotInitialized Manifest))"
      by (simp add: GetCachedVersionsOnVHD_def)
    then show ?thesis ..
  next
    case m: False
    show ?thesis
    proof (cases "cacheFromComponentContainerImages w = None")
      case True
      with m have "GetCachedVersionsOnVHD w =
          Returns None (Some (CacheNotInitialized ComponentContainerImages))"
        by (simp add: GetCachedVersionsOnVHD_def)
      then show ?thesis ..
    next
      case False
      with m unset have "cacheFromComponentDownloadedFiles w = None"
        by (cases i) simp_all
      with m False have "GetCachedVersionsOnVHD w =
          Returns None (Some (CacheNotInitialized ComponentDownloadedFiles))"
        by (simp add: GetCachedVersionsOnVHD_def)
      then show ?thesis ..
    qed
  qed
next
  fix i
  assume "GetCachedVersionsOnVHD w = Returns None (Some (CacheNotInitialized i))"
  then show "inventoryVar w i = None"
    by (cases i) (auto simp: GetCachedVersionsOnVHD_def split: if_splits)
next
  assume allset: "\<forall>i. inventoryVar w i \<noteq> None"
  from allset [rule_format, of Manifest] allset [rule_format, of ComponentContainerImages]
       allset [rule_format, of ComponentDownloadedFiles]
  show "GetCachedVersionsOnVHD w =
             Returns (Some \<lparr>FromManifest = inventoryVar w Manifest,
                            FromComponentContainerImages = inventoryVar w ComponentContainerImages,
                            FromComponentDownloadedFiles = inventoryVar w ComponentDownloadedFiles\<rparr>)
                     None"
    by (simp add: GetCachedVersionsOnVHD_def)
qed

text \<open>
  All three inventories set, and the container-image inventory unset.
\<close>

theorem cache_snapshot_witness:
  "GetCachedVersionsOnVHD exampleWorld =
     Returns (Some \<lparr>FromManifest = Some 1, FromComponentContainerImages = Some 2,
                    FromComponentDownloadedFiles = Some 3\<rparr>) None
   \<and> inventoryVar (exampleWorld\<lparr>cacheFromComponentContainerImages := None\<rparr>)
        ComponentContainerImages = None
   \<and> GetCachedVersionsOnVHD (exampleWorld\<lparr>cacheFromComponentContainerImages := None\<rparr>) =
       Returns None (Some (CacheNotInitialized ComponentContainerImages))"
proof -
  have allset: "\<forall>i. inventoryVar exampleWorld i \<noteq> None"
  proof
    fix i show "inventoryVar exampleWorld i \<noteq> None"
      by (cases i) (simp_all add: exampleWorld_def)
  qed
  from cache_snapshot [of exampleWorld] allset
  have snapshot: "GetCachedVersionsOnVHD exampleWorld =
     Returns (Some \<lparr>FromManifest = Some 1, FromComponentContainerImages = Some 2,
                    FromComponentDownloadedFiles = Some 3\<rparr>) None"
    by (simp add: exampleWorld_def)
  have unset: "inventoryVar (exampleWorld\<lparr>cacheFromComponentContainerImages := None\<rparr>)
        ComponentContainerImages = None"
    by simp
  then have "\<exists>i. inventoryVar (exampleWorld\<lparr>cacheFromComponentContainerImages := None\<rparr>) i = None" ..
  with cache_snapshot [of "exampleWorld\<lparr>cacheFromComponentContainerImages := None\<rparr>"]
  obtain i where err: "GetCachedVersionsOnVHD (exampleWorld\<lparr>cacheFromComponentContainerImages := None\<rparr>) =
       Returns None (Some (CacheNotInitialized i))"
    by blast
  with cache_snapshot [of "exampleWorld\<lparr>cacheFromComponentContainerImages := None\<rparr>"]
  have "inventoryVar (exampleWorld\<lparr>cacheFromComponentContainerImages := None\<rparr>) i = None"
    by blast
  then have "i = ComponentContainerImages"
    by (cases i) (simp_all add: exampleWorld_def)
  with err snapshot unset show ?thesis by simp
qed

text \<open>
  Claim C2 says that the override step never aborts the resolution once one of the two
  lookups succeeded. It does: for a Linux profile whose distro \<open>''legacy''\<close> is in the
  legacy catalog and in no SIG family, with an override for the distro, the code reaches
  \<open>nodeBootstrapping.SigImageConfig.Version = imageVersion\<close> with a nil \<open>SigImageConfig\<close>
  and panics.
\<close>

theorem legacy_only_with_override_panics:
  "GetNodeBootstrapping exampleBaker exampleExternals
     (Some (exampleConfig ''legacy'' ''Linux'' ''cloud'')) exampleWorld =
   (NilPointerPanic, exampleWorld)"
  by (simp add: GetNodeBootstrapping_def validated_def GetSIGAzureCloudSpecConfig_def
        findSIGImageConfig_def Let_def exampleExternals_def exampleBaker_def exampleSpec_def
        exampleConfig_def exampleWorld_def)

section \<open>The override\<close>

lemma GetLatestSigImageConfig_resolved:
  assumes "GetSIGAzureCloudSpecConfig w sigConfig (Region envInfo) = Inr spec"
  shows "GetLatestSigImageConfig agentBaker ext sigConfig distro (Some envInfo) w =
     (case firstMatch (familyScanOrder spec) distro of
        None \<Rightarrow> (Returns None (Some (SIGImageNotFound distro (Region envInfo))), w)
      | Some entry \<Rightarrow>
          (Returns (Some (length (sigImageConfigCells w))) None,
           w\<lparr>sigImageConfigCells := sigImageConfigCells w @
               [if IsWindowsDistro ext distro then entry
                else overrideVersion
                       (GetLinuxNodeImageVersion agentBaker (NewEntityFromEnvironmentInfo envInfo))
                       distro entry]\<rparr>))"
  using assms
  by (auto simp: GetLatestSigImageConfig_def Let_def findSIGImageConfig_firstMatch
        setVersion_fresh overrideVersion_def split: option.splits)

lemma returned_fresh:
  "returnedSigImageConfig
     (Returns (Some (length (sigImageConfigCells w))) None,
      w\<lparr>sigImageConfigCells := sigImageConfigCells w @ [c]\<rparr>) = Some c"
  by (simp add: returnedSigImageConfig_def deref_def)

lemma artifact_fresh:
  "SigImageConfig a = Some (length (sigImageConfigCells w)) \<Longrightarrow>
   artifactSigImageConfig
     (Returns (Some a) None, w\<lparr>sigImageConfigCells := sigImageConfigCells w @ [c]\<rparr>) = Some c"
  by (simp add: artifactSigImageConfig_def deref_def)

lemma found_fresh:
  "firstMatch (familyScanOrder spec) distro = Some entry \<Longrightarrow>
   foundSigImageConfig (findSIGImageConfig spec distro w) = Some entry"
  by (simp add: findSIGImageConfig_firstMatch foundSigImageConfig_def deref_def)

lemma GetLatestSigImageConfig_frame:
  "catalogsUnchanged w (snd (GetLatestSigImageConfig agentBaker ext sigConfig distro envInfoPtr w))"
  by (auto simp: GetLatestSigImageConfig_def Let_def findSIGImageConfig_firstMatch
        setVersion_fresh catalogsUnchanged_def split: option.splits sum.splits)

lemma GetNodeBootstrapping_frame:
  "catalogsUnchanged w (snd (GetNodeBootstrapping agentBaker ext configPtr w))"
  by (auto simp: GetNodeBootstrapping_def Let_def findSIGImageConfig_firstMatch
        setVersion_fresh catalogsUnchanged_def split: option.splits sum.splits)

text \<open>
  The loop over the entries of a Go map, visited in any order (a Go map has each key
  once), leaves the map that \<open>rangeInto\<close> describes.
\<close>

lemma rangeLoop_rangeInto:
  "distinct (map fst entries) \<Longrightarrow>
   rangeLoop body entries allDistros = rangeInto body (map_of entries) allDistros"
proof (induction entries arbitrary: allDistros)
  case Nil
  then show ?case by (simp add: rangeInto_def)
next
  case (Cons e entries)
  obtain distro sigConfig where e: "e = (distro, sigConfig)" by (cases e)
  from Cons.prems e have fresh: "map_of entries distro = None"
    by (simp add: map_of_eq_None_iff)
  from Cons.prems have "distinct (map fst entries)" by simp
  then have step: "rangeLoop body entries (allDistros(distro \<mapsto> body distro sigConfig)) =
             rangeInto body (map_of entries) (allDistros(distro \<mapsto> body distro sigConfig))"
    by (rule Cons.IH)
  have merge: "rangeInto body (map_of entries) (allDistros(distro \<mapsto> body distro sigConfig)) =
        rangeInto body (map_of ((distro, sigConfig) # entries)) allDistros"
    using fresh by (auto simp: rangeInto_def fun_eq_iff split: option.splits)
  have "rangeLoop body ((distro, sigConfig) # entries) allDistros =
        rangeInto body (map_of ((distro, sigConfig) # entries)) allDistros"
    using step merge by (simp only: rangeLoop.simps)
  then show ?case unfolding e .
qed

lemma foldl_rangeInto_none:
  "(\<forall>f\<in>set fams. snd f d = None) \<Longrightarrow>
   foldl (\<lambda>allDistros f. rangeInto (body (fst f)) (snd f) allDistros) init fams d = init d"
  by (induction fams rule: rev_induct) (auto simp: rangeInto_def)

lemma foldl_rangeInto_last:
  "i < length fams \<Longrightarrow> snd (fams ! i) d = Some c \<Longrightarrow>
   (\<forall>j. i < j \<and> j < length fams \<longrightarrow> snd (fams ! j) d = None) \<Longrightarrow>
   foldl (\<lambda>allDistros f. rangeInto (body (fst f)) (snd f) allDistros) init fams d =
     Some (body (fst (fams ! i)) d c)"
proof (induction fams rule: rev_induct)
  case Nil
  then show ?case by simp
next
  case (snoc f fams)
  show ?case
  proof (cases "i = length fams")
    case True
    with snoc.prems show ?thesis by (simp add: rangeInto_def)
  next
    case False
    with snoc.prems have i: "i < length fams" by simp
    with snoc.prems have hit: "snd (fams ! i) d = Some c" by (simp add: nth_append)
    have later: "\<forall>j. i < j \<and> j < length fams \<longrightarrow> snd (fams ! j) d = None"
    proof (intro allI impI)
      fix j assume j: "i < j \<and> j < length fams"
      then have "i < j \<and> j < length (fams @ [f])" by simp
      with snoc.prems(3) have "snd ((fams @ [f]) ! j) d = None" by blast
      with j show "snd (fams ! j) d = None" by (simp add: nth_append)
    qed
    from i snoc.prems(3) [rule_format, of "length fams"]
    have "snd ((fams @ [f]) ! length fams) d = None" by simp
    then have last: "snd f d = None" by simp
    from snoc.IH [OF i hit later] last i show ?thesis
      by (simp add: rangeInto_def nth_append)
  qed
qed

lemma GetDistroSigImageConfig_resolved:
  assumes "GetSIGAzureCloudSpecConfig w sigConfig (Region envInfo) = Inr spec"
  shows "GetDistroSigImageConfig agentBaker sigConfig (Some envInfo) w =
     Returns (Some
       (foldl (\<lambda>allDistros f.
                 rangeInto
                   (if fst f
                    then overrideVersion
                           (GetLinuxNodeImageVersion agentBaker (NewEntityFromEnvironmentInfo envInfo))
                    else (\<lambda>distro sigConfig. sigConfig))
                   (snd f) allDistros)
              Map.empty (mergeOrder spec))) None"
  using assms by (simp add: GetDistroSigImageConfig_def mergeOrder_def Let_def)


lemma GetDistroSigImageConfig_entry:
  assumes "GetSIGAzureCloudSpecConfig w sigConfig (Region envInfo) = Inr spec"
  shows "catalogEntry (GetDistroSigImageConfig agentBaker sigConfig (Some envInfo) w) distro =
     foldl (\<lambda>allDistros f.
                 rangeInto
                   (if fst f
                    then overrideVersion
                           (GetLinuxNodeImageVersion agentBaker (NewEntityFromEnvironmentInfo envInfo))
                    else (\<lambda>distro sigConfig. sigConfig))
                   (snd f) allDistros)
              Map.empty (mergeOrder spec) distro"
  by (simp add: GetDistroSigImageConfig_resolved [OF assms] catalogEntry_def)

lemma example_env_sig:
  "GetSIGAzureCloudSpecConfig exampleWorld sigConfig (Region exampleEnvInfo) = Inr exampleSpec"
  by (simp add: GetSIGAzureCloudSpecConfig_def exampleWorld_def exampleEnvInfo_def)

lemma example_firstMatch:
  "firstMatch (familyScanOrder exampleSpec) ''u'' = Some (sigEntry ''ubuntu'' ''1'')"
  "firstMatch (familyScanOrder exampleSpec) ''win'' = Some (sigEntry ''windows'' ''4'')"
  by (simp_all add: familyScanOrder_def exampleSpec_def)

lemma example_overrides:
  "GetLinuxNodeImageVersion exampleBaker e ''u'' = Some ''9''"
  "GetLinuxNodeImageVersion exampleBaker e ''win'' = Some ''9''"
  "GetLinuxNodeImageVersion exampleBaker e ''both'' = None"
  by (simp_all add: exampleBaker_def)

lemma example_IsWindows:
  "IsWindows exampleExternals (AgentPoolProfile (exampleConfig distro osType cloud)) \<longleftrightarrow> osType = ''Windows''"
  by (simp add: exampleExternals_def exampleConfig_def)

lemma example_IsWindowsDistro:
  "IsWindowsDistro exampleExternals distro \<longleftrightarrow> distro = ''win''"
  by (simp add: exampleExternals_def)

lemma example_legacy_validated:
  "AzureCloudToOSImageMap exampleWorld
     (CloudName (CloudSpecConfig (validated exampleExternals (exampleConfig distro osType ''cloud''))))
     = Some [''legacy'' \<mapsto> osEntry, ''u'' \<mapsto> osEntry]"
  by (simp only: validated_example example_legacy)

lemma example_sig_validated:
  "GetSIGAzureCloudSpecConfig exampleWorld
     (SIGConfig (validated exampleExternals (exampleConfig distro osType cloud)))
     (Location (ContainerService (validated exampleExternals (exampleConfig distro osType cloud))))
     = Inr exampleSpec"
  by (simp only: validated_example example_sig)

lemma example_not_customized:
  "distro \<notin> {''CustomizedWindowsOSImage'', ''CustomizedImage'', ''CustomizedImageKata''} \<Longrightarrow>
   Distro (AgentPoolProfile (validated exampleExternals (exampleConfig distro osType cloud)))
     \<notin> customized exampleExternals"
  unfolding validated_example example_distro example_customized by assumption

text \<open>
  Claim C3 says that every resolution operation returns the catalog version for a Windows
  distro even when an override for its key is present. \<open>GetNodeBootstrapping\<close> does not:
  for the Windows distro \<open>''win''\<close> (catalog version \<open>''4''\<close>, override \<open>''9''\<close>) in a
  configuration whose agent pool profile is not flagged Windows, the artifact's
  \<open>SigImageConfig\<close> has the override version.
\<close>

theorem override_gates_counterexample:
  "IsWindowsDistro exampleExternals ''win''
   \<and> GetLinuxNodeImageVersion exampleBaker
        (NewEntityFromNodeBootstrappingConfiguration (exampleConfig ''win'' ''Linux'' ''cloud''))
        ''win'' = Some ''9''
   \<and> map_option Version (foundSigImageConfig (findSIGImageConfig exampleSpec ''win'' exampleWorld))
       = Some ''4''
   \<and> map_option Version
        (artifactSigImageConfig
          (GetNodeBootstrapping exampleBaker exampleExternals
             (Some (exampleConfig ''win'' ''Linux'' ''cloud'')) exampleWorld))
       = Some ''9''"
proof -
  have nc: "Distro (AgentPoolProfile (validated exampleExternals (exampleConfig ''win'' ''Linux'' ''cloud'')))
              \<notin> customized exampleExternals"
    by (simp add: validated_example example_distro example_customized)
  have "artifactSigImageConfig
          (GetNodeBootstrapping exampleBaker exampleExternals
             (Some (exampleConfig ''win'' ''Linux'' ''cloud'')) exampleWorld)
        = Some (sigEntry ''windows'' ''9'')"
    unfolding GetNodeBootstrapping_resolved [OF nc example_legacy_validated example_sig_validated]
    by (simp add: validated_example example_distro example_firstMatch example_overrides
          example_IsWindows Let_def artifactSigImageConfig_def deref_def overrideVersion_def
          sigEntry_def)
  moreover have "foundSigImageConfig (findSIGImageConfig exampleSpec ''win'' exampleWorld)
        = Some (sigEntry ''windows'' ''4'')"
    by (simp add: found_fresh example_firstMatch)
  ultimately show ?thesis
    by (simp add: example_IsWindowsDistro example_overrides sigEntry_def)
qed

text \<open>
  Claim C3, amended. When the SIG lookup finds an entry and the override mapping has the
  distro's key with value \<open>v\<close>:
  \<^item> \<open>GetLatestSigImageConfig\<close> returns the entry with version \<open>v\<close> for a distro that is
    not a Windows distro, and the catalog entry unchanged for a Windows distro;
  \<^item> \<open>GetNodeBootstrapping\<close> returns the entry with version \<open>v\<close> when the agent pool
    profile is not flagged Windows, and the catalog entry unchanged when it is;
  \<^item> in the map of \<open>GetDistroSigImageConfig\<close>, a distro that is in one of the four Linux
    families has version \<open>v\<close>, and a distro that is in none of them has the entry of the
    Windows family unchanged.
\<close>

theorem override_gates:
  "(GetSIGAzureCloudSpecConfig w sigConfig (Region envInfo) = Inr spec
      \<and> firstMatch (familyScanOrder spec) distro = Some entry
      \<and> GetLinuxNodeImageVersion agentBaker (NewEntityFromEnvironmentInfo envInfo) distro = Some v
    \<longrightarrow> returnedSigImageConfig
          (GetLatestSigImageConfig agentBaker ext sigConfig distro (Some envInfo) w)
        = Some (if IsWindowsDistro ext distro then entry else entry\<lparr>Version := v\<rparr>))
   \<and> (Distro (AgentPoolProfile (validated ext config)) \<notin> customized ext
      \<and> AzureCloudToOSImageMap w (CloudName (CloudSpecConfig (validated ext config)))
          = Some osImageConfigMap
      \<and> GetSIGAzureCloudSpecConfig w (SIGConfig (validated ext config))
           (Location (ContainerService (validated ext config))) = Inr spec'
      \<and> firstMatch (familyScanOrder spec') (Distro (AgentPoolProfile (validated ext config)))
          = Some entry'
      \<and> GetLinuxNodeImageVersion agentBaker
           (NewEntityFromNodeBootstrappingConfiguration (validated ext config))
           (Distro (AgentPoolProfile (validated ext config))) = Some v'
    \<longrightarrow> artifactSigImageConfig (GetNodeBootstrapping agentBaker ext (Some config) w)
        = Some (if IsWindows ext (AgentPoolProfile (validated ext config)) then entry'
                else entry'\<lparr>Version := v'\<rparr>))
   \<and> (GetSIGAzureCloudSpecConfig w sigConfig (Region envInfo) = Inr spec
      \<and> GetLinuxNodeImageVersion agentBaker (NewEntityFromEnvironmentInfo envInfo) distro = Some v
    \<longrightarrow> ((\<exists>m\<in>set (linuxFamilies spec). m distro \<noteq> None)
          \<longrightarrow> map_option Version
                (catalogEntry (GetDistroSigImageConfig agentBaker sigConfig (Some envInfo) w) distro)
              = Some v)
        \<and> ((\<forall>m\<in>set (linuxFamilies spec). m distro = None)
          \<longrightarrow> catalogEntry (GetDistroSigImageConfig agentBaker sigConfig (Some envInfo) w) distro
              = SigWindowsImageConfig spec distro))"
proof (intro conjI impI)
  assume "GetSIGAzureCloudSpecConfig w sigConfig (Region envInfo) = Inr spec
      \<and> firstMatch (familyScanOrder spec) distro = Some entry
      \<and> GetLinuxNodeImageVersion agentBaker (NewEntityFromEnvironmentInfo envInfo) distro = Some v"
  then show "returnedSigImageConfig
          (GetLatestSigImageConfig agentBaker ext sigConfig distro (Some envInfo) w)
        = Some (if IsWindowsDistro ext distro then entry else entry\<lparr>Version := v\<rparr>)"
    by (simp add: GetLatestSigImageConfig_resolved returned_fresh overrideVersion_def)
next
  assume h: "Distro (AgentPoolProfile (validated ext config)) \<notin> customized ext
      \<and> AzureCloudToOSImageMap w (CloudName (CloudSpecConfig (validated ext config)))
          = Some osImageConfigMap
      \<and> GetSIGAzureCloudSpecConfig w (SIGConfig (validated ext config))
           (Location (ContainerService (validated ext config))) = Inr spec'
      \<and> firstMatch (familyScanOrder spec') (Distro (AgentPoolProfile (validated ext config)))
          = Some entry'
      \<and> GetLinuxNodeImageVersion agentBaker
           (NewEntityFromNodeBootstrappingConfiguration (validated ext config))
           (Distro (AgentPoolProfile (validated ext config))) = Some v'"
  then have "GetNodeBootstrapping agentBaker ext (Some config) w =
      (Returns (Some \<lparr>CustomData = getNodeBootstrappingPayload ext (validated ext config),
                       CSE = getNodeBootstrappingCmd ext (validated ext config),
                       OSImageConfig = osImageConfigMap (Distro (AgentPoolProfile (validated ext config))),
                       SigImageConfig = Some (length (sigImageConfigCells w))\<rparr>) None,
       w\<lparr>sigImageConfigCells := sigImageConfigCells w @
           [if IsWindows ext (AgentPoolProfile (validated ext config)) then entry'
            else entry'\<lparr>Version := v'\<rparr>]\<rparr>)"
    by (simp add: GetNodeBootstrapping_resolved Let_def overrideVersion_def)
  then show "artifactSigImageConfig (GetNodeBootstrapping agentBaker ext (Some config) w)
        = Some (if IsWindows ext (AgentPoolProfile (validated ext config)) then entry'
                else entry'\<lparr>Version := v'\<rparr>)"
    by (simp add: artifact_fresh)
next
  assume h: "GetSIGAzureCloudSpecConfig w sigConfig (Region envInfo) = Inr spec
      \<and> GetLinuxNodeImageVersion agentBaker (NewEntityFromEnvironmentInfo envInfo) distro = Some v"
    and "\<exists>m\<in>set (linuxFamilies spec). m distro \<noteq> None"
  then show "map_option Version
                (catalogEntry (GetDistroSigImageConfig agentBaker sigConfig (Some envInfo) w) distro)
              = Some v"
    by (auto simp: GetDistroSigImageConfig_def catalogEntry_def Let_def linuxFamilies_def
          rangeInto_def overrideVersion_def split: option.splits)
next
  assume h: "GetSIGAzureCloudSpecConfig w sigConfig (Region envInfo) = Inr spec
      \<and> GetLinuxNodeImageVersion agentBaker (NewEntityFromEnvironmentInfo envInfo) distro = Some v"
    and "\<forall>m\<in>set (linuxFamilies spec). m distro = None"
  then show "catalogEntry (GetDistroSigImageConfig agentBaker sigConfig (Some envInfo) w) distro
              = SigWindowsImageConfig spec distro"
    by (auto simp: GetDistroSigImageConfig_def catalogEntry_def Let_def linuxFamilies_def
          rangeInto_def split: option.splits)
qed


text \<open>
  The distro \<open>''u''\<close> (Ubuntu family, catalog version \<open>''1''\<close>, override \<open>''9''\<close>), not a
  Windows distro, in a profile that is not flagged Windows.
\<close>

theorem override_gates_witness:
  "returnedSigImageConfig
     (GetLatestSigImageConfig exampleBaker exampleExternals (MkSIGConfig ''sig'') ''u''
        (Some exampleEnvInfo) exampleWorld) = Some (sigEntry ''ubuntu'' ''9'')
   \<and> artifactSigImageConfig
       (GetNodeBootstrapping exampleBaker exampleExternals
          (Some (exampleConfig ''u'' ''Linux'' ''cloud'')) exampleWorld) = Some (sigEntry ''ubuntu'' ''9'')
   \<and> map_option Version
       (catalogEntry (GetDistroSigImageConfig exampleBaker (MkSIGConfig ''sig'')
          (Some exampleEnvInfo) exampleWorld) ''u'') = Some ''9''"
proof -
  note gates = override_gates
    [where w = exampleWorld and sigConfig = "MkSIGConfig ''sig''" and envInfo = exampleEnvInfo
       and spec = exampleSpec and distro = "''u''" and entry = "sigEntry ''ubuntu'' ''1''"
       and agentBaker = exampleBaker and v = "''9''" and ext = exampleExternals
       and config = "exampleConfig ''u'' ''Linux'' ''cloud''"
       and osImageConfigMap = "[''legacy'' \<mapsto> osEntry, ''u'' \<mapsto> osEntry]"
       and spec' = exampleSpec and entry' = "sigEntry ''ubuntu'' ''1''" and v' = "''9''"]
  have nc: "Distro (AgentPoolProfile (validated exampleExternals (exampleConfig ''u'' ''Linux'' ''cloud'')))
              \<notin> customized exampleExternals"
    by (rule example_not_customized) simp
  have found: "firstMatch (familyScanOrder exampleSpec)
       (Distro (AgentPoolProfile (validated exampleExternals (exampleConfig ''u'' ''Linux'' ''cloud''))))
       = Some (sigEntry ''ubuntu'' ''1'')"
    by (simp only: validated_example example_distro example_firstMatch)
  have ovr: "GetLinuxNodeImageVersion exampleBaker
       (NewEntityFromNodeBootstrappingConfiguration
          (validated exampleExternals (exampleConfig ''u'' ''Linux'' ''cloud'')))
       (Distro (AgentPoolProfile (validated exampleExternals (exampleConfig ''u'' ''Linux'' ''cloud''))))
       = Some ''9''"
    by (simp only: validated_example example_distro example_overrides)
  have linux: "\<exists>m\<in>set (linuxFamilies exampleSpec). m ''u'' \<noteq> None"
    by (simp add: linuxFamilies_def exampleSpec_def)
  from gates [THEN conjunct1] example_env_sig example_firstMatch(1) example_overrides(1)
  have first: "returnedSigImageConfig
     (GetLatestSigImageConfig exampleBaker exampleExternals (MkSIGConfig ''sig'') ''u''
        (Some exampleEnvInfo) exampleWorld) = Some (sigEntry ''ubuntu'' ''9'')"
    by (simp add: example_IsWindowsDistro sigEntry_def)
  from gates [THEN conjunct2, THEN conjunct1] nc example_legacy_validated example_sig_validated
       found ovr
  have second: "artifactSigImageConfig
       (GetNodeBootstrapping exampleBaker exampleExternals
          (Some (exampleConfig ''u'' ''Linux'' ''cloud'')) exampleWorld) = Some (sigEntry ''ubuntu'' ''9'')"
    by (simp add: validated_example example_IsWindows sigEntry_def)
  from gates [THEN conjunct2, THEN conjunct2] example_env_sig example_overrides(1) linux
  have third: "map_option Version
       (catalogEntry (GetDistroSigImageConfig exampleBaker (MkSIGConfig ''sig'')
          (Some exampleEnvInfo) exampleWorld) ''u'') = Some ''9''"
    by blast
  from first second third show ?thesis by simp
qed

section \<open>The order of the merge\<close>

text \<open>
  Claim C4 says that \<open>GetDistroSigImageConfig\<close> merges in the order of the family scan
  (Ubuntu, CBLMariner, AzureLinux, Windows, UbuntuEdgeZone), so that a distro of the Ubuntu
  and of the Windows family would map to the Windows entry, as \<open>specDistroSigImageConfig\<close>
  computes. The code merges the Windows family first: the distro \<open>''both''\<close> maps to the
  Ubuntu entry.
\<close>

theorem merge_order_counterexample:
  "SigUbuntuImageConfig exampleSpec ''both'' = Some (sigEntry ''ubuntu'' ''1'')
   \<and> SigWindowsImageConfig exampleSpec ''both'' = Some (sigEntry ''windows'' ''4'')
   \<and> specDistroSigImageConfig
        (GetLinuxNodeImageVersion exampleBaker (NewEntityFromEnvironmentInfo exampleEnvInfo))
        exampleSpec ''both'' = Some (sigEntry ''windows'' ''4'')
   \<and> catalogEntry (GetDistroSigImageConfig exampleBaker (MkSIGConfig ''sig'')
        (Some exampleEnvInfo) exampleWorld) ''both'' = Some (sigEntry ''ubuntu'' ''1'')
   \<and> sigEntry ''ubuntu'' ''1'' \<noteq> sigEntry ''windows'' ''4''"
  by (simp add: GetDistroSigImageConfig_def specDistroSigImageConfig_def catalogEntry_def
        example_env_sig example_overrides rangeInto_def overrideVersion_def Let_def
        exampleSpec_def sigEntry_def)

text \<open>
  Claim C4, amended. \<open>GetDistroSigImageConfig\<close> merges the five families in the order
  Windows, CBLMariner, AzureLinux, Ubuntu, UbuntuEdgeZone (\<open>mergeOrder\<close>), a later merge
  overwriting an earlier one: a distro maps to the entry of the last family of this order
  that has it (with the override applied unless that family is the Windows one), and a
  distro that no family has is not in the map.
\<close>

theorem merge_order:
  "GetSIGAzureCloudSpecConfig w sigConfig (Region envInfo) = Inr spec \<longrightarrow>
     (i < length (mergeOrder spec)
        \<and> snd (mergeOrder spec ! i) distro = Some entry
        \<and> (\<forall>j. i < j \<and> j < length (mergeOrder spec) \<longrightarrow> snd (mergeOrder spec ! j) distro = None)
      \<longrightarrow> catalogEntry (GetDistroSigImageConfig agentBaker sigConfig (Some envInfo) w) distro
          = Some (if fst (mergeOrder spec ! i)
                  then overrideVersion
                         (GetLinuxNodeImageVersion agentBaker (NewEntityFromEnvironmentInfo envInfo))
                         distro entry
                  else entry))
     \<and> ((\<forall>f\<in>set (mergeOrder spec). snd f distro = None)
      \<longrightarrow> catalogEntry (GetDistroSigImageConfig agentBaker sigConfig (Some envInfo) w) distro
          = None)"
proof (intro conjI impI)
  assume sig: "GetSIGAzureCloudSpecConfig w sigConfig (Region envInfo) = Inr spec"
    and "i < length (mergeOrder spec)
        \<and> snd (mergeOrder spec ! i) distro = Some entry
        \<and> (\<forall>j. i < j \<and> j < length (mergeOrder spec) \<longrightarrow> snd (mergeOrder spec ! j) distro = None)"
  then have i: "i < length (mergeOrder spec)"
    and hit: "snd (mergeOrder spec ! i) distro = Some entry"
    and later: "\<forall>j. i < j \<and> j < length (mergeOrder spec) \<longrightarrow> snd (mergeOrder spec ! j) distro = None"
    by blast+
  show "catalogEntry (GetDistroSigImageConfig agentBaker sigConfig (Some envInfo) w) distro
          = Some (if fst (mergeOrder spec ! i)
                  then overrideVersion
                         (GetLinuxNodeImageVersion agentBaker (NewEntityFromEnvironmentInfo envInfo))
                         distro entry
                  else entry)"
    unfolding GetDistroSigImageConfig_entry [OF sig]
    by (simp add: foldl_rangeInto_last
          [where body = "\<lambda>linux. if linux
              then overrideVersion
                     (GetLinuxNodeImageVersion agentBaker (NewEntityFromEnvironmentInfo envInfo))
              else (\<lambda>distro sigConfig. sigConfig)", OF i hit later])
next
  assume sig: "GetSIGAzureCloudSpecConfig w sigConfig (Region envInfo) = Inr spec"
    and none: "\<forall>f\<in>set (mergeOrder spec). snd f distro = None"
  show "catalogEntry (GetDistroSigImageConfig agentBaker sigConfig (Some envInfo) w) distro = None"
    unfolding GetDistroSigImageConfig_entry [OF sig]
    by (simp add: foldl_rangeInto_none
          [where body = "\<lambda>linux. if linux
              then overrideVersion
                     (GetLinuxNodeImageVersion agentBaker (NewEntityFromEnvironmentInfo envInfo))
              else (\<lambda>distro sigConfig. sigConfig)", OF none])
qed

text \<open>
  The distro \<open>''both''\<close> is in the Windows family (first in the merge order) and in the
  Ubuntu family (fourth), and not in the UbuntuEdgeZone family (fifth).
\<close>

theorem merge_order_witness:
  "snd (mergeOrder exampleSpec ! 0) ''both'' = Some (sigEntry ''windows'' ''4'')
   \<and> snd (mergeOrder exampleSpec ! 3) ''both'' = Some (sigEntry ''ubuntu'' ''1'')
   \<and> snd (mergeOrder exampleSpec ! 4) ''both'' = None
   \<and> catalogEntry (GetDistroSigImageConfig exampleBaker (MkSIGConfig ''sig'')
        (Some exampleEnvInfo) exampleWorld) ''both'' = Some (sigEntry ''ubuntu'' ''1'')"
proof -
  have order: "mergeOrder exampleSpec ! 0 = (False, SigWindowsImageConfig exampleSpec)"
    "mergeOrder exampleSpec ! 3 = (True, SigUbuntuImageConfig exampleSpec)"
    "mergeOrder exampleSpec ! 4 = (True, SigUbuntuEdgeZoneImageConfig exampleSpec)"
    "length (mergeOrder exampleSpec) = 5"
    by (simp_all add: mergeOrder_def)
  have windows: "snd (mergeOrder exampleSpec ! 0) ''both'' = Some (sigEntry ''windows'' ''4'')"
    and ubuntu: "snd (mergeOrder exampleSpec ! 3) ''both'' = Some (sigEntry ''ubuntu'' ''1'')"
    and edge: "snd (mergeOrder exampleSpec ! 4) ''both'' = None"
    unfolding order by (simp_all add: exampleSpec_def)
  have later: "\<forall>j. 3 < j \<and> j < length (mergeOrder exampleSpec)
                 \<longrightarrow> snd (mergeOrder exampleSpec ! j) ''both'' = None"
  proof (intro allI impI)
    fix j :: nat assume "3 < j \<and> j < length (mergeOrder exampleSpec)"
    then have "j = 4" using order(4) by simp
    with edge show "snd (mergeOrder exampleSpec ! j) ''both'' = None" by simp
  qed
  from merge_order [where w = exampleWorld and sigConfig = "MkSIGConfig ''sig''"
         and envInfo = exampleEnvInfo and spec = exampleSpec and i = 3 and distro = "''both''"
         and entry = "sigEntry ''ubuntu'' ''1''" and agentBaker = exampleBaker]
       example_env_sig ubuntu later order(4)
  have "catalogEntry (GetDistroSigImageConfig exampleBaker (MkSIGConfig ''sig'')
        (Some exampleEnvInfo) exampleWorld) ''both''
      = Some (if fst (mergeOrder exampleSpec ! 3)
              then overrideVersion
                     (GetLinuxNodeImageVersion exampleBaker (NewEntityFromEnvironmentInfo exampleEnvInfo))
                     ''both'' (sigEntry ''ubuntu'' ''1'')
              else sigEntry ''ubuntu'' ''1'')"
    by simp
  then have "catalogEntry (GetDistroSigImageConfig exampleBaker (MkSIGConfig ''sig'')
        (Some exampleEnvInfo) exampleWorld) ''both'' = Some (sigEntry ''ubuntu'' ''1'')"
    by (simp add: order overrideVersion_def example_overrides)
  with windows ubuntu edge show ?thesis by simp
qed

section \<open>What the override writes\<close>

lemma catalogsUnchanged_sig:
  "catalogsUnchanged w w' \<Longrightarrow>
   GetSIGAzureCloudSpecConfig w' sigConfig region = GetSIGAzureCloudSpecConfig w sigConfig region"
  by (simp add: catalogsUnchanged_def GetSIGAzureCloudSpecConfig_def)

text \<open>
  Claim C9. \<open>GetLatestSigImageConfig\<close> and \<open>GetNodeBootstrapping\<close> leave the legacy catalog,
  the SIG catalogs and every cell that existed before the call as they were, on every
  input. With an applicable override (entry found, gate open, key present with value \<open>v\<close>)
  the value that the caller reads through the returned pointer has version \<open>v\<close>, while
  the catalogs resolve as before the call and a lookup of the same distro in the same
  catalog after the call yields the catalog entry with its original version.
\<close>

theorem override_leaves_catalogs:
  "catalogsUnchanged w
     (snd (GetLatestSigImageConfig agentBaker ext sigConfig distro envInfoPtr w))
   \<and> catalogsUnchanged w (snd (GetNodeBootstrapping agentBaker ext configPtr w))
   \<and> (GetSIGAzureCloudSpecConfig w sigConfig (Region envInfo) = Inr spec
      \<and> firstMatch (familyScanOrder spec) distro = Some entry
      \<and> \<not> IsWindowsDistro ext distro
      \<and> GetLinuxNodeImageVersion agentBaker (NewEntityFromEnvironmentInfo envInfo) distro = Some v
    \<longrightarrow> returnedSigImageConfig
          (GetLatestSigImageConfig agentBaker ext sigConfig distro (Some envInfo) w)
        = Some (entry\<lparr>Version := v\<rparr>)
      \<and> GetSIGAzureCloudSpecConfig
          (snd (GetLatestSigImageConfig agentBaker ext sigConfig distro (Some envInfo) w))
          sigConfig (Region envInfo) = Inr spec
      \<and> foundSigImageConfig
          (findSIGImageConfig spec distro
             (snd (GetLatestSigImageConfig agentBaker ext sigConfig distro (Some envInfo) w)))
        = Some entry)
   \<and> (Distro (AgentPoolProfile (validated ext config)) \<notin> customized ext
      \<and> AzureCloudToOSImageMap w (CloudName (CloudSpecConfig (validated ext config)))
          = Some osImageConfigMap
      \<and> GetSIGAzureCloudSpecConfig w (SIGConfig (validated ext config))
           (Location (ContainerService (validated ext config))) = Inr spec'
      \<and> firstMatch (familyScanOrder spec') (Distro (AgentPoolProfile (validated ext config)))
          = Some entry'
      \<and> \<not> IsWindows ext (AgentPoolProfile (validated ext config))
      \<and> GetLinuxNodeImageVersion agentBaker
           (NewEntityFromNodeBootstrappingConfiguration (validated ext config))
           (Distro (AgentPoolProfile (validated ext config))) = Some v'
    \<longrightarrow> artifactSigImageConfig (GetNodeBootstrapping agentBaker ext (Some config) w)
        = Some (entry'\<lparr>Version := v'\<rparr>)
      \<and> AzureCloudToOSImageMap (snd (GetNodeBootstrapping agentBaker ext (Some config) w))
          (CloudName (CloudSpecConfig (validated ext config))) = Some osImageConfigMap
      \<and> GetSIGAzureCloudSpecConfig (snd (GetNodeBootstrapping agentBaker ext (Some config) w))
          (SIGConfig (validated ext config))
          (Location (ContainerService (validated ext config))) = Inr spec'
      \<and> foundSigImageConfig
          (findSIGImageConfig spec' (Distro (AgentPoolProfile (validated ext config)))
             (snd (GetNodeBootstrapping agentBaker ext (Some config) w)))
        = Some entry')"
proof (intro conjI impI)
  show "catalogsUnchanged w
     (snd (GetLatestSigImageConfig agentBaker ext sigConfig distro envInfoPtr w))"
    by (rule GetLatestSigImageConfig_frame)
next
  show "catalogsUnchanged w (snd (GetNodeBootstrapping agentBaker ext configPtr w))"
    by (rule GetNodeBootstrapping_frame)
next
  assume "GetSIGAzureCloudSpecConfig w sigConfig (Region envInfo) = Inr spec
      \<and> firstMatch (familyScanOrder spec) distro = Some entry
      \<and> \<not> IsWindowsDistro ext distro
      \<and> GetLinuxNodeImageVersion agentBaker (NewEntityFromEnvironmentInfo envInfo) distro = Some v"
  then show "returnedSigImageConfig
          (GetLatestSigImageConfig agentBaker ext sigConfig distro (Some envInfo) w)
        = Some (entry\<lparr>Version := v\<rparr>)"
    by (simp add: GetLatestSigImageConfig_resolved returned_fresh overrideVersion_def)
next
  assume "GetSIGAzureCloudSpecConfig w sigConfig (Region envInfo) = Inr spec
      \<and> firstMatch (familyScanOrder spec) distro = Some entry
      \<and> \<not> IsWindowsDistro ext distro
      \<and> GetLinuxNodeImageVersion agentBaker (NewEntityFromEnvironmentInfo envInfo) distro = Some v"
  then show "GetSIGAzureCloudSpecConfig
          (snd (GetLatestSigImageConfig agentBaker ext sigConfig distro (Some envInfo) w))
          sigConfig (Region envInfo) = Inr spec"
    by (simp add: catalogsUnchanged_sig [OF GetLatestSigImageConfig_frame])
next
  assume "GetSIGAzureCloudSpecConfig w sigConfig (Region envInfo) = Inr spec
      \<and> firstMatch (familyScanOrder spec) distro = Some entry
      \<and> \<not> IsWindowsDistro ext distro
      \<and> GetLinuxNodeImageVersion agentBaker (NewEntityFromEnvironmentInfo envInfo) distro = Some v"
  then show "foundSigImageConfig
          (findSIGImageConfig spec distro
             (snd (GetLatestSigImageConfig agentBaker ext sigConfig distro (Some envInfo) w)))
        = Some entry"
    by (simp add: found_fresh)
next
  assume "Distro (AgentPoolProfile (validated ext config)) \<notin> customized ext
      \<and> AzureCloudToOSImageMap w (CloudName (CloudSpecConfig (validated ext config)))
          = Some osImageConfigMap
      \<and> GetSIGAzureCloudSpecConfig w (SIGConfig (validated ext config))
           (Location (ContainerService (validated ext config))) = Inr spec'
      \<and> firstMatch (familyScanOrder spec') (Distro (AgentPoolProfile (validated ext config)))
          = Some entry'
      \<and> \<not> IsWindows ext (AgentPoolProfile (validated ext config))
      \<and> GetLinuxNodeImageVersion agentBaker
           (NewEntityFromNodeBootstrappingConfiguration (validated ext config))
           (Distro (AgentPoolProfile (validated ext config))) = Some v'"
  then have "GetNodeBootstrapping agentBaker ext (Some config) w =
      (Returns (Some \<lparr>CustomData = getNodeBootstrappingPayload ext (validated ext config),
                       CSE = getNodeBootstrappingCmd ext (validated ext config),
                       OSImageConfig = osImageConfigMap (Distro (AgentPoolProfile (validated ext config))),
                       SigImageConfig = Some (length (sigImageConfigCells w))\<rparr>) None,
       w\<lparr>sigImageConfigCells := sigImageConfigCells w @ [entry'\<lparr>Version := v'\<rparr>]\<rparr>)"
    by (simp add: GetNodeBootstrapping_resolved Let_def overrideVersion_def)
  then show "artifactSigImageConfig (GetNodeBootstrapping agentBaker ext (Some config) w)
        = Some (entry'\<lparr>Version := v'\<rparr>)"
    by (simp add: artifact_fresh)
next
  assume "Distro (AgentPoolProfile (validated ext config)) \<notin> customized ext
      \<and> AzureCloudToOSImageMap w (CloudName (CloudSpecConfig (validated ext config)))
          = Some osImageConfigMap
      \<and> GetSIGAzureCloudSpecConfig w (SIGConfig (validated ext config))
           (Location (ContainerService (validated ext config))) = Inr spec'
      \<and> firstMatch (familyScanOrder spec') (Distro (AgentPoolProfile (validated ext config)))
          = Some entry'
      \<and> \<not> IsWindows ext (AgentPoolProfile (validated ext config))
      \<and> GetLinuxNodeImageVersion agentBaker
           (NewEntityFromNodeBootstrappingConfiguration (validated ext config))
           (Distro (AgentPoolProfile (validated ext config))) = Some v'"
  moreover have "AzureCloudToOSImageMap (snd (GetNodeBootstrapping agentBaker ext (Some config) w))
      = AzureCloudToOSImageMap w"
    using GetNodeBootstrapping_frame [of w agentBaker ext "Some config"]
    by (simp add: catalogsUnchanged_def)
  ultimately show "AzureCloudToOSImageMap (snd (GetNodeBootstrapping agentBaker ext (Some config) w))
          (CloudName (CloudSpecConfig (validated ext config))) = Some osImageConfigMap"
    by simp
next
  assume "Distro (AgentPoolProfile (validated ext config)) \<notin> customized ext
      \<and> AzureCloudToOSImageMap w (CloudName (CloudSpecConfig (validated ext config)))
          = Some osImageConfigMap
      \<and> GetSIGAzureCloudSpecConfig w (SIGConfig (validated ext config))
           (Location (ContainerService (validated ext config))) = Inr spec'
      \<and> firstMatch (familyScanOrder spec') (Distro (AgentPoolProfile (validated ext config)))
          = Some entry'
      \<and> \<not> IsWindows ext (AgentPoolProfile (validated ext config))
      \<and> GetLinuxNodeImageVersion agentBaker
           (NewEntityFromNodeBootstrappingConfiguration (validated ext config))
           (Distro (AgentPoolProfile (validated ext config))) = Some v'"
  then show "GetSIGAzureCloudSpecConfig (snd (GetNodeBootstrapping agentBaker ext (Some config) w))
          (SIGConfig (validated ext config))
          (Location (ContainerService (validated ext config))) = Inr spec'"
    by (simp add: catalogsUnchanged_sig [OF GetNodeBootstrapping_frame])
next
  assume "Distro (AgentPoolProfile (validated ext config)) \<notin> customized ext
      \<and> AzureCloudToOSImageMap w (CloudName (CloudSpecConfig (validated ext config)))
          = Some osImageConfigMap
      \<and> GetSIGAzureCloudSpecConfig w (SIGConfig (validated ext config))
           (Location (ContainerService (validated ext config))) = Inr spec'
      \<and> firstMatch (familyScanOrder spec') (Distro (AgentPoolProfile (validated ext config)))
          = Some entry'
      \<and> \<not> IsWindows ext (AgentPoolProfile (validated ext config))
      \<and> GetLinuxNodeImageVersion agentBaker
           (NewEntityFromNodeBootstrappingConfiguration (validated ext config))
           (Distro (AgentPoolProfile (validated ext config))) = Some v'"
  then show "foundSigImageConfig
          (findSIGImageConfig spec' (Distro (AgentPoolProfile (validated ext config)))
             (snd (GetNodeBootstrapping agentBaker ext (Some config) w)))
        = Some entry'"
    by (simp add: found_fresh)
qed

text \<open>
  The distro \<open>''u''\<close>: the caller reads version \<open>''9''\<close>, a lookup afterwards reads
  version \<open>''1''\<close>.
\<close>

theorem override_leaves_catalogs_witness:
  "returnedSigImageConfig
     (GetLatestSigImageConfig exampleBaker exampleExternals (MkSIGConfig ''sig'') ''u''
        (Some exampleEnvInfo) exampleWorld) = Some (sigEntry ''ubuntu'' ''9'')
   \<and> foundSigImageConfig
       (findSIGImageConfig exampleSpec ''u''
          (snd (GetLatestSigImageConfig exampleBaker exampleExternals (MkSIGConfig ''sig'') ''u''
                  (Some exampleEnvInfo) exampleWorld))) = Some (sigEntry ''ubuntu'' ''1'')
   \<and> artifactSigImageConfig
       (GetNodeBootstrapping exampleBaker exampleExternals
          (Some (exampleConfig ''u'' ''Linux'' ''cloud'')) exampleWorld) = Some (sigEntry ''ubuntu'' ''9'')
   \<and> foundSigImageConfig
       (findSIGImageConfig exampleSpec ''u''
          (snd (GetNodeBootstrapping exampleBaker exampleExternals
                  (Some (exampleConfig ''u'' ''Linux'' ''cloud'')) exampleWorld)))
       = Some (sigEntry ''ubuntu'' ''1'')"
proof -
  note frame = override_leaves_catalogs
    [where w = exampleWorld and sigConfig = "MkSIGConfig ''sig''" and envInfo = exampleEnvInfo
       and envInfoPtr = "Some exampleEnvInfo"
       and spec = exampleSpec and distro = "''u''" and entry = "sigEntry ''ubuntu'' ''1''"
       and agentBaker = exampleBaker and v = "''9''" and ext = exampleExternals
       and config = "exampleConfig ''u'' ''Linux'' ''cloud''"
       and configPtr = "Some (exampleConfig ''u'' ''Linux'' ''cloud'')"
       and osImageConfigMap = "[''legacy'' \<mapsto> osEntry, ''u'' \<mapsto> osEntry]"
       and spec' = exampleSpec and entry' = "sigEntry ''ubuntu'' ''1''" and v' = "''9''"]
  have nc: "Distro (AgentPoolProfile (validated exampleExternals (exampleConfig ''u'' ''Linux'' ''cloud'')))
              \<notin> customized exampleExternals"
    by (rule example_not_customized) simp
  have found: "firstMatch (familyScanOrder exampleSpec)
       (Distro (AgentPoolProfile (validated exampleExternals (exampleConfig ''u'' ''Linux'' ''cloud''))))
       = Some (sigEntry ''ubuntu'' ''1'')"
    by (simp only: validated_example example_distro example_firstMatch)
  have ovr: "GetLinuxNodeImageVersion exampleBaker
       (NewEntityFromNodeBootstrappingConfiguration
          (validated exampleExternals (exampleConfig ''u'' ''Linux'' ''cloud'')))
       (Distro (AgentPoolProfile (validated exampleExternals (exampleConfig ''u'' ''Linux'' ''cloud''))))
       = Some ''9''"
    by (simp only: validated_example example_distro example_overrides)
  have linuxDistro: "\<not> IsWindowsDistro exampleExternals ''u''"
    by (simp add: example_IsWindowsDistro)
  have linuxProfile: "\<not> IsWindows exampleExternals
       (AgentPoolProfile (validated exampleExternals (exampleConfig ''u'' ''Linux'' ''cloud'')))"
    by (simp add: validated_example example_IsWindows)
  from frame [THEN conjunct2, THEN conjunct2, THEN conjunct1]
       example_env_sig example_firstMatch(1) linuxDistro example_overrides(1)
  have latest: "returnedSigImageConfig
     (GetLatestSigImageConfig exampleBaker exampleExternals (MkSIGConfig ''sig'') ''u''
        (Some exampleEnvInfo) exampleWorld) = Some (sigEntry ''ubuntu'' ''1''\<lparr>Version := ''9''\<rparr>)
   \<and> foundSigImageConfig
       (findSIGImageConfig exampleSpec ''u''
          (snd (GetLatestSigImageConfig exampleBaker exampleExternals (MkSIGConfig ''sig'') ''u''
                  (Some exampleEnvInfo) exampleWorld))) = Some (sigEntry ''ubuntu'' ''1'')"
    by blast
  from frame [THEN conjunct2, THEN conjunct2, THEN conjunct2]
       nc example_legacy_validated example_sig_validated found linuxProfile ovr
  have boot: "artifactSigImageConfig
       (GetNodeBootstrapping exampleBaker exampleExternals
          (Some (exampleConfig ''u'' ''Linux'' ''cloud'')) exampleWorld)
       = Some (sigEntry ''ubuntu'' ''1''\<lparr>Version := ''9''\<rparr>)
   \<and> foundSigImageConfig
       (findSIGImageConfig exampleSpec
          (Distro (AgentPoolProfile (validated exampleExternals (exampleConfig ''u'' ''Linux'' ''cloud''))))
          (snd (GetNodeBootstrapping exampleBaker exampleExternals
                  (Some (exampleConfig ''u'' ''Linux'' ''cloud'')) exampleWorld)))
       = Some (sigEntry ''ubuntu'' ''1'')"
    by blast
  have version: "sigEntry ''ubuntu'' ''1''\<lparr>Version := ''9''\<rparr> = sigEntry ''ubuntu'' ''9''"
    by (simp add: sigEntry_def)
  from latest boot show ?thesis
    by (simp only: version validated_example example_distro simp_thms)
qed

section \<open>The gate of the override\<close>

lemma validated_IsWindowsDistro:
  "validated (ext\<lparr>IsWindowsDistro := f\<rparr>) config = validated ext config"
  by (simp add: validated_def)

text \<open>
  Claim C10. \<open>GetNodeBootstrapping\<close> never consults the distro's Windows classification
  (its result is the same whatever \<open>IsWindowsDistro\<close> is) and gates the override on the
  profile's \<open>IsWindows\<close> flag: with a SIG entry found and an override for the distro's key,
  a profile that is not flagged Windows gets the override version even for a Windows
  distro, and a profile flagged Windows gets the catalog entry even for a distro that is
  not a Windows distro. \<open>GetLatestSigImageConfig\<close> never consults \<open>IsWindows\<close> and gates on
  \<open>IsWindowsDistro\<close>.
\<close>

theorem profile_flag_gates_override:
  "GetNodeBootstrapping agentBaker (ext\<lparr>IsWindowsDistro := f\<rparr>) configPtr w =
     GetNodeBootstrapping agentBaker ext configPtr w
   \<and> GetLatestSigImageConfig agentBaker (ext\<lparr>IsWindows := g\<rparr>) sigConfig distro envInfoPtr w =
       GetLatestSigImageConfig agentBaker ext sigConfig distro envInfoPtr w
   \<and> (Distro (AgentPoolProfile (validated ext config)) \<notin> customized ext
      \<and> AzureCloudToOSImageMap w (CloudName (CloudSpecConfig (validated ext config)))
          = Some osImageConfigMap
      \<and> GetSIGAzureCloudSpecConfig w (SIGConfig (validated ext config))
           (Location (ContainerService (validated ext config))) = Inr spec'
      \<and> firstMatch (familyScanOrder spec') (Distro (AgentPoolProfile (validated ext config)))
          = Some entry'
      \<and> GetLinuxNodeImageVersion agentBaker
           (NewEntityFromNodeBootstrappingConfiguration (validated ext config))
           (Distro (AgentPoolProfile (validated ext config))) = Some v'
    \<longrightarrow> (\<not> IsWindows ext (AgentPoolProfile (validated ext config))
           \<and> IsWindowsDistro ext (Distro (AgentPoolProfile (validated ext config)))
         \<longrightarrow> artifactSigImageConfig (GetNodeBootstrapping agentBaker ext (Some config) w)
             = Some (entry'\<lparr>Version := v'\<rparr>))
       \<and> (IsWindows ext (AgentPoolProfile (validated ext config))
           \<and> \<not> IsWindowsDistro ext (Distro (AgentPoolProfile (validated ext config)))
         \<longrightarrow> artifactSigImageConfig (GetNodeBootstrapping agentBaker ext (Some config) w)
             = Some entry'))
   \<and> (GetSIGAzureCloudSpecConfig w sigConfig (Region envInfo) = Inr spec
      \<and> firstMatch (familyScanOrder spec) distro = Some entry
      \<and> GetLinuxNodeImageVersion agentBaker (NewEntityFromEnvironmentInfo envInfo) distro = Some v
    \<longrightarrow> returnedSigImageConfig
          (GetLatestSigImageConfig agentBaker ext sigConfig distro (Some envInfo) w)
        = Some (if IsWindowsDistro ext distro then entry else entry\<lparr>Version := v\<rparr>))"
proof (intro conjI impI)
  show "GetNodeBootstrapping agentBaker (ext\<lparr>IsWindowsDistro := f\<rparr>) configPtr w =
     GetNodeBootstrapping agentBaker ext configPtr w"
    by (simp add: GetNodeBootstrapping_def validated_IsWindowsDistro Let_def
          cong del: option.case_cong_weak sum.case_cong_weak prod.case_cong_weak if_weak_cong)
next
  show "GetLatestSigImageConfig agentBaker (ext\<lparr>IsWindows := g\<rparr>) sigConfig distro envInfoPtr w =
       GetLatestSigImageConfig agentBaker ext sigConfig distro envInfoPtr w"
    by (simp add: GetLatestSigImageConfig_def Let_def
          cong del: option.case_cong_weak sum.case_cong_weak prod.case_cong_weak if_weak_cong)
next
  assume h: "Distro (AgentPoolProfile (validated ext config)) \<notin> customized ext
      \<and> AzureCloudToOSImageMap w (CloudName (CloudSpecConfig (validated ext config)))
          = Some osImageConfigMap
      \<and> GetSIGAzureCloudSpecConfig w (SIGConfig (validated ext config))
           (Location (ContainerService (validated ext config))) = Inr spec'
      \<and> firstMatch (familyScanOrder spec') (Distro (AgentPoolProfile (validated ext config)))
          = Some entry'
      \<and> GetLinuxNodeImageVersion agentBaker
           (NewEntityFromNodeBootstrappingConfiguration (validated ext config))
           (Distro (AgentPoolProfile (validated ext config))) = Some v'"
    and "\<not> IsWindows ext (AgentPoolProfile (validated ext config))
           \<and> IsWindowsDistro ext (Distro (AgentPoolProfile (validated ext config)))"
  then show "artifactSigImageConfig (GetNodeBootstrapping agentBaker ext (Some config) w)
             = Some (entry'\<lparr>Version := v'\<rparr>)"
    by (simp add: GetNodeBootstrapping_resolved Let_def overrideVersion_def artifact_fresh)
next
  assume h: "Distro (AgentPoolProfile (validated ext config)) \<notin> customized ext
      \<and> AzureCloudToOSImageMap w (CloudName (CloudSpecConfig (validated ext config)))
          = Some osImageConfigMap
      \<and> GetSIGAzureCloudSpecConfig w (SIGConfig (validated ext config))
           (Location (ContainerService (validated ext config))) = Inr spec'
      \<and> firstMatch (familyScanOrder spec') (Distro (AgentPoolProfile (validated ext config)))
          = Some entry'
      \<and> GetLinuxNodeImageVersion agentBaker
           (NewEntityFromNodeBootstrappingConfiguration (validated ext config))
           (Distro (AgentPoolProfile (validated ext config))) = Some v'"
    and "IsWindows ext (AgentPoolProfile (validated ext config))
           \<and> \<not> IsWindowsDistro ext (Distro (AgentPoolProfile (validated ext config)))"
  then show "artifactSigImageConfig (GetNodeBootstrapping agentBaker ext (Some config) w)
             = Some entry'"
    by (simp add: GetNodeBootstrapping_resolved Let_def overrideVersion_def artifact_fresh)
next
  assume "GetSIGAzureCloudSpecConfig w sigConfig (Region envInfo) = Inr spec
      \<and> firstMatch (familyScanOrder spec) distro = Some entry
      \<and> GetLinuxNodeImageVersion agentBaker (NewEntityFromEnvironmentInfo envInfo) distro = Some v"
  then show "returnedSigImageConfig
          (GetLatestSigImageConfig agentBaker ext sigConfig distro (Some envInfo) w)
        = Some (if IsWindowsDistro ext distro then entry else entry\<lparr>Version := v\<rparr>)"
    by (simp add: GetLatestSigImageConfig_resolved returned_fresh overrideVersion_def)
qed


text \<open>
  The Windows distro \<open>''win''\<close> in a Linux profile, the Ubuntu distro \<open>''u''\<close> in a Windows
  profile, and \<open>''win''\<close> through \<open>GetLatestSigImageConfig\<close>.
\<close>

theorem profile_flag_gates_override_witness:
  "IsWindowsDistro exampleExternals ''win''
   \<and> \<not> IsWindows exampleExternals (AgentPoolProfile (exampleConfig ''win'' ''Linux'' ''cloud''))
   \<and> artifactSigImageConfig
       (GetNodeBootstrapping exampleBaker exampleExternals
          (Some (exampleConfig ''win'' ''Linux'' ''cloud'')) exampleWorld)
       = Some (sigEntry ''windows'' ''9'')
   \<and> \<not> IsWindowsDistro exampleExternals ''u''
   \<and> IsWindows exampleExternals (AgentPoolProfile (exampleConfig ''u'' ''Windows'' ''cloud''))
   \<and> artifactSigImageConfig
       (GetNodeBootstrapping exampleBaker exampleExternals
          (Some (exampleConfig ''u'' ''Windows'' ''cloud'')) exampleWorld)
       = Some (sigEntry ''ubuntu'' ''1'')
   \<and> returnedSigImageConfig
       (GetLatestSigImageConfig exampleBaker exampleExternals (MkSIGConfig ''sig'') ''win''
          (Some exampleEnvInfo) exampleWorld) = Some (sigEntry ''windows'' ''4'')"
proof -
  have found: "firstMatch (familyScanOrder exampleSpec)
       (Distro (AgentPoolProfile (validated exampleExternals (exampleConfig ''win'' ''Linux'' ''cloud''))))
       = Some (sigEntry ''windows'' ''4'')"
    "firstMatch (familyScanOrder exampleSpec)
       (Distro (AgentPoolProfile (validated exampleExternals (exampleConfig ''u'' ''Windows'' ''cloud''))))
       = Some (sigEntry ''ubuntu'' ''1'')"
    by (simp_all only: validated_example example_distro example_firstMatch)
  have ovr: "GetLinuxNodeImageVersion exampleBaker
       (NewEntityFromNodeBootstrappingConfiguration
          (validated exampleExternals (exampleConfig ''win'' ''Linux'' ''cloud'')))
       (Distro (AgentPoolProfile (validated exampleExternals (exampleConfig ''win'' ''Linux'' ''cloud''))))
       = Some ''9''"
    "GetLinuxNodeImageVersion exampleBaker
       (NewEntityFromNodeBootstrappingConfiguration
          (validated exampleExternals (exampleConfig ''u'' ''Windows'' ''cloud'')))
       (Distro (AgentPoolProfile (validated exampleExternals (exampleConfig ''u'' ''Windows'' ''cloud''))))
       = Some ''9''"
    by (simp_all only: validated_example example_distro example_overrides)
  have flags: "IsWindowsDistro exampleExternals ''win''"
    "\<not> IsWindows exampleExternals (AgentPoolProfile (exampleConfig ''win'' ''Linux'' ''cloud''))"
    "\<not> IsWindowsDistro exampleExternals ''u''"
    "IsWindows exampleExternals (AgentPoolProfile (exampleConfig ''u'' ''Windows'' ''cloud''))"
    by (simp_all add: example_IsWindowsDistro example_IsWindows)
  have version: "sigEntry ''windows'' ''4''\<lparr>Version := ''9''\<rparr> = sigEntry ''windows'' ''9''"
    by (simp add: sigEntry_def)
  from profile_flag_gates_override
         [where ext = exampleExternals and config = "exampleConfig ''win'' ''Linux'' ''cloud''"
            and w = exampleWorld and osImageConfigMap = "[''legacy'' \<mapsto> osEntry, ''u'' \<mapsto> osEntry]"
            and spec' = exampleSpec and entry' = "sigEntry ''windows'' ''4''" and v' = "''9''"
            and agentBaker = exampleBaker, THEN conjunct2, THEN conjunct2, THEN conjunct1]
       example_not_customized [of "''win''" "''Linux''" "''cloud''"]
       example_legacy_validated example_sig_validated found(1) ovr(1) flags(1,2)
  have linuxProfile: "artifactSigImageConfig
       (GetNodeBootstrapping exampleBaker exampleExternals
          (Some (exampleConfig ''win'' ''Linux'' ''cloud'')) exampleWorld)
       = Some (sigEntry ''windows'' ''9'')"
    by (simp add: validated_example example_distro version)
  from profile_flag_gates_override
         [where ext = exampleExternals and config = "exampleConfig ''u'' ''Windows'' ''cloud''"
            and w = exampleWorld and osImageConfigMap = "[''legacy'' \<mapsto> osEntry, ''u'' \<mapsto> osEntry]"
            and spec' = exampleSpec and entry' = "sigEntry ''ubuntu'' ''1''" and v' = "''9''"
            and agentBaker = exampleBaker, THEN conjunct2, THEN conjunct2, THEN conjunct1]
       example_not_customized [of "''u''" "''Windows''" "''cloud''"]
       example_legacy_validated example_sig_validated found(2) ovr(2) flags(3,4)
  have windowsProfile: "artifactSigImageConfig
       (GetNodeBootstrapping exampleBaker exampleExternals
          (Some (exampleConfig ''u'' ''Windows'' ''cloud'')) exampleWorld)
       = Some (sigEntry ''ubuntu'' ''1'')"
    by (simp add: validated_example example_distro)
  from profile_flag_gates_override
         [where ext = exampleExternals and w = exampleWorld and sigConfig = "MkSIGConfig ''sig''"
            and envInfo = exampleEnvInfo and spec = exampleSpec and distro = "''win''"
            and entry = "sigEntry ''windows'' ''4''" and v = "''9''" and agentBaker = exampleBaker,
          THEN conjunct2, THEN conjunct2, THEN conjunct2]
       example_env_sig example_firstMatch(2) example_overrides(2) flags(1)
  have latest: "returnedSigImageConfig
       (GetLatestSigImageConfig exampleBaker exampleExternals (MkSIGConfig ''sig'') ''win''
          (Some exampleEnvInfo) exampleWorld) = Some (sigEntry ''windows'' ''4'')"
    by simp
  from flags linuxProfile windowsProfile latest show ?thesis by simp
qed

end
